theory Spec2Isabelle
  imports Complex_Main "HOL-Library.Sublist"
begin

section \<open>The LLM request queue (services/queue.ts)\<close>

text \<open>
  The class \<^verbatim>\<open>LLMQueue\<close> has two mutable fields, \<^verbatim>\<open>running\<close> (a JavaScript number that
  only ever moves by one, hence an \<open>int\<close>) and \<^verbatim>\<open>waiting\<close> (an array of the pending
  promises' \<^verbatim>\<open>resolve\<close> callbacks), and the read-only \<^verbatim>\<open>maxConcurrent\<close>. A waiter is
  identified by the caller whose \<^verbatim>\<open>acquire()\<close> created it.
\<close>

type_synonym caller = nat

record LLMQueue =
  running :: int
  waiting :: "caller list"
  maxConcurrent :: int

definition new_LLMQueue :: "int \<Rightarrow> LLMQueue" where
  "new_LLMQueue m = \<lparr>running = 0, waiting = [], maxConcurrent = m\<rparr>"

text \<open>\<^verbatim>\<open>export const llmQueue = new LLMQueue(2)\<close>\<close>

definition llmQueue :: LLMQueue where
  "llmQueue = new_LLMQueue 2"

text \<open>
  \<^verbatim>\<open>acquire()\<close>: below the limit the counter is incremented and the promise resolves at
  once (first component \<open>True\<close>); otherwise the caller's \<^verbatim>\<open>resolve\<close> is pushed on
  \<^verbatim>\<open>waiting\<close> and the caller stays suspended (\<open>False\<close>).
\<close>

definition acquire :: "caller \<Rightarrow> LLMQueue \<Rightarrow> bool \<times> LLMQueue" where
  "acquire c q =
     (if running q < maxConcurrent q
      then (True, q\<lparr>running := running q + 1\<rparr>)
      else (False, q\<lparr>waiting := waiting q @ [c]\<rparr>))"

text \<open>
  \<^verbatim>\<open>release()\<close>: \<^verbatim>\<open>waiting.shift()\<close> removes and returns the head of the array, or
  \<^verbatim>\<open>undefined\<close> when it is empty. A waiter is an object and so truthy: it is resolved
  (first component \<open>Some\<close>) and \<^verbatim>\<open>running\<close> is left alone; otherwise \<^verbatim>\<open>running\<close> is
  decremented.
\<close>

definition release :: "LLMQueue \<Rightarrow> caller option \<times> LLMQueue" where
  "release q =
     (case waiting q of
        [] \<Rightarrow> (None, q\<lparr>running := running q - 1\<rparr>)
      | next # rest \<Rightarrow> (Some next, q\<lparr>waiting := rest\<rparr>))"

section \<open>The provider fallback chain (services/ai.ts)\<close>

datatype ProviderSlot = gemini1 | gemini2 | gemini3 | gemini4 | gemini5 | gemini6

text \<open>
  \<^verbatim>\<open>interface ProviderState\<close>, without the \<^verbatim>\<open>client\<close> (the SDK object: its calls are
  the environment below). Timestamps are the integers of \<^verbatim>\<open>Date.now()\<close>.
\<close>

record ProviderState =
  model :: string
  name :: string
  rateLimitedUntil :: int
  isActive :: bool

type_synonym providers = "ProviderSlot \<Rightarrow> ProviderState"

text \<open>One slot of \<^verbatim>\<open>config.ai\<close>, and the part of the configuration this module reads.\<close>

record SlotConfig =
  apiKey :: string
  slotModel :: string

record AiConfig =
  gemini :: "ProviderSlot \<Rightarrow> SlotConfig"
  embeddingApiKey :: string
  embeddingModel :: string

definition REQUEST_TIMEOUT_MS :: int where
  "REQUEST_TIMEOUT_MS = 30000"

definition RATE_LIMIT_COOLDOWN_MS :: int where
  "RATE_LIMIT_COOLDOWN_MS = 30000"

text \<open>\<^verbatim>\<open>isActive: !!(slot.apiKey && slot.model)\<close>: both strings are non-empty.\<close>

definition buildProvider :: "SlotConfig \<Rightarrow> string \<Rightarrow> ProviderState" where
  "buildProvider slot nm =
     \<lparr>model = slotModel slot, name = nm, rateLimitedUntil = 0,
      isActive = (apiKey slot \<noteq> [] \<and> slotModel slot \<noteq> [])\<rparr>"

fun providerName :: "ProviderSlot \<Rightarrow> string" where
  "providerName gemini1 = ''Gemini 3 Flash''"
| "providerName gemini2 = ''Gemini 2.5 Flash''"
| "providerName gemini3 = ''Gemini 2.5 Flash Lite A''"
| "providerName gemini4 = ''Gemini 2.5 Flash Lite B''"
| "providerName gemini5 = ''Gemini 2.5 Flash Lite C''"
| "providerName gemini6 = ''Gemini 2.5 Flash Lite D''"

text \<open>The table \<^verbatim>\<open>providers\<close> as the module builds it when it is loaded.\<close>

definition initial_providers :: "AiConfig \<Rightarrow> providers" where
  "initial_providers cfg = (\<lambda>key. buildProvider (gemini cfg key) (providerName key))"

text \<open>
  \<^verbatim>\<open>PROVIDER_PRIORITY\<close> is a constant, computed once at load time from the table as it
  is then; no later write to \<^verbatim>\<open>isActive\<close> changes it.
\<close>

definition PROVIDER_PRIORITY :: "AiConfig \<Rightarrow> ProviderSlot list" where
  "PROVIDER_PRIORITY cfg =
     filter (\<lambda>key. isActive (initial_providers cfg key))
       [gemini1, gemini2, gemini3, gemini4, gemini5, gemini6]"

subsection \<open>What a provider call can do\<close>

text \<open>
  \<^verbatim>\<open>interface ApiError\<close>: every field is optional; a code is a number or a string.
  A thrown value is an object (whose \<^verbatim>\<open>instanceof Error\<close> is the flag) or a
  primitive, which \<^verbatim>\<open>asApiError\<close> reads as the empty object.
\<close>

datatype code_val = NumCode int | StrCode string

record ApiErrorBody =
  body_code :: "code_val option"
  body_message :: "string option"

record ApiError =
  status :: "int option"
  code :: "code_val option"
  message :: "string option"
  error :: "ApiErrorBody option"

datatype thrown = ThrownObject bool ApiError | ThrownPrimitive

definition empty_ApiError :: ApiError where
  "empty_ApiError = \<lparr>status = None, code = None, message = None, error = None\<rparr>"

fun asApiError :: "thrown \<Rightarrow> ApiError" where
  "asApiError (ThrownObject _ e) = e"
| "asApiError ThrownPrimitive = empty_ApiError"

text \<open>\<^verbatim>\<open>apiErr.status ?? apiErr.code ?? apiErr.error?.code\<close>\<close>

definition error_status :: "ApiError \<Rightarrow> code_val option" where
  "error_status e =
     (case status e of
        Some n \<Rightarrow> Some (NumCode n)
      | None \<Rightarrow>
          (case code e of
             Some c \<Rightarrow> Some c
           | None \<Rightarrow> (case error e of None \<Rightarrow> None | Some b \<Rightarrow> body_code b)))"

text \<open>
  The outcome of one \<^verbatim>\<open>await provider.client.chat.completions.create(...)\<close> followed by
  \<^verbatim>\<open>response.choices[0]?.message?.content\<close>: the text (\<open>None\<close> for \<^verbatim>\<open>null\<close> or
  \<^verbatim>\<open>undefined\<close>), or the value thrown inside the \<^verbatim>\<open>try\<close>.
\<close>

datatype outcome = Responded "string option" | Threw thrown

text \<open>
  The environment of one call of \<^verbatim>\<open>generateCompletion\<close>, indexed by the iteration of
  the loop over \<^verbatim>\<open>PROVIDER_PRIORITY\<close>: the clock read at the top of the iteration, what
  the provider's API does if it is called there, the clock read by \<^verbatim>\<open>markRateLimited\<close>,
  and what other calls in flight write to the shared table while this one awaits.
\<close>

record call_env =
  clock :: "nat \<Rightarrow> int"
  respond :: "nat \<Rightarrow> ProviderSlot \<Rightarrow> outcome"
  clock_fail :: "nat \<Rightarrow> int"
  interfere :: "nat \<Rightarrow> providers \<Rightarrow> providers"

definition markRateLimited :: "ProviderSlot \<Rightarrow> int \<Rightarrow> providers \<Rightarrow> providers" where
  "markRateLimited key now ps =
     ps(key := (ps key)\<lparr>rateLimitedUntil := now + RATE_LIMIT_COOLDOWN_MS\<rparr>)"

subsection \<open>getActiveProvider\<close>

text \<open>
  The loop returns the first provider that is not cooling, clearing an expired cooldown
  on the way. After the loop, \<^verbatim>\<open>reduce\<close> without an initial value picks the provider
  whose cooldown ends soonest; on an empty array it throws a TypeError.
\<close>

text \<open>What a statement of the runtime can throw.\<close>

datatype js_error = TypeError | SyntaxError

fun firstAvailable :: "int \<Rightarrow> ProviderSlot list \<Rightarrow> providers \<Rightarrow> (ProviderSlot \<times> providers) option" where
  "firstAvailable now [] ps = None"
| "firstAvailable now (key # rest) ps =
     (if rateLimitedUntil (ps key) > 0
      then (if now \<ge> rateLimitedUntil (ps key)
            then Some (key, ps(key := (ps key)\<lparr>rateLimitedUntil := 0\<rparr>))
            else firstAvailable now rest ps)
      else Some (key, ps))"

definition soonest :: "providers \<Rightarrow> ProviderSlot \<Rightarrow> ProviderSlot list \<Rightarrow> ProviderSlot" where
  "soonest ps first rest =
     foldl (\<lambda>a b. if rateLimitedUntil (ps a) \<le> rateLimitedUntil (ps b) then a else b) first rest"

definition getActiveProvider ::
  "AiConfig \<Rightarrow> int \<Rightarrow> providers \<Rightarrow> js_error + (ProviderSlot \<times> providers)" where
  "getActiveProvider cfg now ps =
     (case firstAvailable now (PROVIDER_PRIORITY cfg) ps of
        Some r \<Rightarrow> Inr r
      | None \<Rightarrow>
          (case PROVIDER_PRIORITY cfg of
             [] \<Rightarrow> Inl TypeError
           | first # rest \<Rightarrow> Inr (soonest ps first rest, ps)))"

subsection \<open>generateCompletion\<close>

text \<open>
  The locals of one call: the shared table, \<^verbatim>\<open>attempted\<close> and \<^verbatim>\<open>lastError\<close>.
  Logging and the latency measurements do not influence the control flow and are left
  out.
\<close>

record call_state =
  table :: providers
  attempted :: "ProviderSlot list"
  lastError :: "thrown option"

datatype LLMError = LLMError string string

text \<open>
  The \<^verbatim>\<open>catch\<close> block: only 429 and 402 start a cooldown; 404 clears \<^verbatim>\<open>isActive\<close>;
  anything else leaves the table alone.
\<close>

definition on_error :: "ProviderSlot \<Rightarrow> int \<Rightarrow> thrown \<Rightarrow> providers \<Rightarrow> providers" where
  "on_error key now err ps =
     (let st = error_status (asApiError err);
          isRateLimit = (st = Some (NumCode 429));
          isPaymentRequired = (st = Some (NumCode 402))
      in if isRateLimit \<or> isPaymentRequired then markRateLimited key now ps
         else if st = Some (NumCode 404) then ps(key := (ps key)\<lparr>isActive := False\<rparr>)
         else ps)"

text \<open>
  The \<^verbatim>\<open>for (const key of PROVIDER_PRIORITY)\<close> loop from its \<open>i\<close>-th iteration on. The
  result is the text returned from inside the loop, or \<open>None\<close> when the loop runs out.
  \<^verbatim>\<open>if (!text)\<close> holds for \<^verbatim>\<open>null\<close>, \<^verbatim>\<open>undefined\<close> and the empty string.
\<close>

fun provider_loop ::
  "call_env \<Rightarrow> nat \<Rightarrow> ProviderSlot list \<Rightarrow> call_state \<Rightarrow> string option \<times> call_state" where
  "provider_loop env i [] st = (None, st)"
| "provider_loop env i (key # rest) st =
     (let now = clock env i;
          until = rateLimitedUntil (table st key)
      in if until > 0 \<and> \<not> now \<ge> until
         then provider_loop env (Suc i) rest st
         else
           (let ps = (if until > 0
                      then (table st)(key := (table st key)\<lparr>rateLimitedUntil := 0\<rparr>)
                      else table st);
                st1 = st\<lparr>table := interfere env i ps, attempted := attempted st @ [key]\<rparr>
            in case respond env i key of
                 Responded text \<Rightarrow>
                   (case text of
                      None \<Rightarrow> provider_loop env (Suc i) rest st1
                    | Some t \<Rightarrow>
                        if t = [] then provider_loop env (Suc i) rest st1
                        else (Some t, st1))
               | Threw err \<Rightarrow>
                   provider_loop env (Suc i) rest
                     (st1\<lparr>table := on_error key (clock_fail env i) err (table st1),
                          lastError := Some err\<rparr>)))"

text \<open>
  The body of the outer \<^verbatim>\<open>try\<close>: the loop, then \<^verbatim>\<open>throw new LLMError('all', ...)\<close>,
  whose message is \<^verbatim>\<open>lastError.message\<close> when \<^verbatim>\<open>lastError instanceof Error\<close> (an absent
  message makes the empty one) and a fixed text otherwise.
\<close>

definition failure_message :: "thrown option \<Rightarrow> string" where
  "failure_message e =
     (case e of
        Some (ThrownObject True a) \<Rightarrow> (case message a of Some m \<Rightarrow> m | None \<Rightarrow> [])
      | _ \<Rightarrow> ''All LLM providers failed'')"

definition generateCompletion_try ::
  "AiConfig \<Rightarrow> call_env \<Rightarrow> providers \<Rightarrow> (LLMError + string) \<times> call_state" where
  "generateCompletion_try cfg env ps =
     (case provider_loop env 0 (PROVIDER_PRIORITY cfg)
             \<lparr>table = ps, attempted = [], lastError = None\<rparr> of
        (Some text, st) \<Rightarrow> (Inr text, st)
      | (None, st) \<Rightarrow> (Inl (LLMError ''all'' (failure_message (lastError st))), st))"

text \<open>
  \<^verbatim>\<open>try { ... } finally { llmQueue.release() }\<close>, entered once \<^verbatim>\<open>await llmQueue.acquire()\<close>
  has resolved: whether the body returns or throws, \<^verbatim>\<open>release\<close> runs once.
\<close>

definition generateCompletion_granted ::
  "AiConfig \<Rightarrow> call_env \<Rightarrow> providers \<Rightarrow> LLMQueue
     \<Rightarrow> (LLMError + string) \<times> call_state \<times> caller option \<times> LLMQueue" where
  "generateCompletion_granted cfg env ps q =
     (case generateCompletion_try cfg env ps of
        (Inr text, st) \<Rightarrow> (Inr text, st, release q)
      | (Inl e, st) \<Rightarrow> (Inl e, st, release q))"

text \<open>
  The whole function for caller \<open>c\<close>. When no slot is free the call is suspended on the
  wait list and goes on (as \<open>generateCompletion_granted\<close>) only when a \<^verbatim>\<open>release\<close>
  resolves it.
\<close>

datatype 'a progress = Suspended LLMQueue | Finished 'a

definition generateCompletion ::
  "AiConfig \<Rightarrow> call_env \<Rightarrow> caller \<Rightarrow> providers \<Rightarrow> LLMQueue
     \<Rightarrow> ((LLMError + string) \<times> call_state \<times> caller option \<times> LLMQueue) progress" where
  "generateCompletion cfg env c ps q =
     (case acquire c q of
        (True, q') \<Rightarrow> Finished (generateCompletion_granted cfg env ps q')
      | (False, q') \<Rightarrow> Suspended q')"

section \<open>Interleavings of calls on the queue\<close>

text \<open>
  The runtime is single threaded: the steps of the calls in flight run one after the
  other, in any order. A workload is a list of events:
  \<^item> \<open>Acquire c\<close>: caller \<open>c\<close> calls \<^verbatim>\<open>acquire()\<close> (the first statement of
    \<^verbatim>\<open>generateCompletion\<close>);
  \<^item> \<open>Release c\<close>: caller \<open>c\<close> calls \<^verbatim>\<open>release()\<close>;
  \<^item> \<open>Completion c cfg env ps\<close>: the call of \<^verbatim>\<open>generateCompletion\<close> by \<open>c\<close>, which holds
    a slot, runs its provider loop (on the table \<open>ps\<close>, in the environment \<open>env\<close>) and
    leaves, by \<^verbatim>\<open>return\<close> or by \<^verbatim>\<open>throw\<close>.
  Beside the queue the state records who holds a slot (the callers whose \<^verbatim>\<open>acquire()\<close>
  promise has been resolved and who have not released yet), and two logs: the callers
  that were put on the wait list, and the waiters that were resolved, both in the order
  it happened. A release by a caller that holds no slot is not part of any workload
  (\<open>None\<close>).
\<close>

datatype event =
    Acquire caller
  | Release caller
  | Completion caller AiConfig call_env providers

record admission =
  queue :: LLMQueue
  holding :: "caller list"
  enqueued :: "caller list"
  resumed :: "caller list"

definition new_admission :: "LLMQueue \<Rightarrow> admission" where
  "new_admission q = \<lparr>queue = q, holding = [], enqueued = [], resumed = []\<rparr>"

text \<open>
  The state after caller \<open>c\<close> has run \<^verbatim>\<open>release()\<close> with the given outcome: \<open>c\<close> holds
  its slot no longer, and a waiter that was resolved holds one from now on.
\<close>

definition hand_over :: "caller \<Rightarrow> caller option \<times> LLMQueue \<Rightarrow> admission \<Rightarrow> admission" where
  "hand_over c released g =
     (case released of
        (None, q') \<Rightarrow> g\<lparr>queue := q', holding := remove1 c (holding g)\<rparr>
      | (Some w, q') \<Rightarrow>
          g\<lparr>queue := q', holding := remove1 c (holding g) @ [w], resumed := resumed g @ [w]\<rparr>)"

fun step :: "event \<Rightarrow> admission \<Rightarrow> admission option" where
  "step (Acquire c) g =
     (case acquire c (queue g) of
        (True, q') \<Rightarrow> Some (g\<lparr>queue := q', holding := holding g @ [c]\<rparr>)
      | (False, q') \<Rightarrow> Some (g\<lparr>queue := q', enqueued := enqueued g @ [c]\<rparr>))"
| "step (Release c) g =
     (if c \<in> set (holding g) then Some (hand_over c (release (queue g)) g) else None)"
| "step (Completion c cfg env ps) g =
     (if c \<in> set (holding g)
      then Some (hand_over c (snd (snd (generateCompletion_granted cfg env ps (queue g)))) g)
      else None)"

fun run :: "event list \<Rightarrow> admission \<Rightarrow> admission option" where
  "run [] g = Some g"
| "run (e # es) g = (case step e g of None \<Rightarrow> None | Some g' \<Rightarrow> run es g')"

definition slots_ok :: "admission \<Rightarrow> bool" where
  "slots_ok g = (int (length (holding g)) = running (queue g)
                 \<and> running (queue g) \<le> maxConcurrent (queue g))"

definition fifo_ok :: "admission \<Rightarrow> bool" where
  "fifo_ok g = (enqueued g = resumed g @ waiting (queue g))"

section \<open>The response cache (services/cache.ts)\<close>

text \<open>
  The cache is a JavaScript \<^verbatim>\<open>Map\<close>, which iterates in insertion order: an association
  list, oldest insertion first. \<^verbatim>\<open>Map.set\<close> on a key that is present replaces the
  entry where it stands; on a new key it appends. \<^verbatim>\<open>Map.delete\<close> removes the key.
\<close>

record CacheEntry =
  cached :: string
  expiresAt :: int

type_synonym cache = "(string \<times> CacheEntry) list"

definition DEFAULT_TTL_MS :: int where
  "DEFAULT_TTL_MS = 5 * 60 * 1000"

definition MAX_ENTRIES :: nat where
  "MAX_ENTRIES = 200"

definition map_get :: "cache \<Rightarrow> string \<Rightarrow> CacheEntry option" where
  "map_get c key = map_of c key"

definition map_delete :: "string \<Rightarrow> cache \<Rightarrow> cache" where
  "map_delete key c = filter (\<lambda>kv. fst kv \<noteq> key) c"

fun map_set :: "string \<Rightarrow> CacheEntry \<Rightarrow> cache \<Rightarrow> cache" where
  "map_set key e [] = [(key, e)]"
| "map_set key e (kv # rest) =
     (if fst kv = key then (key, e) # rest else kv # map_set key e rest)"

text \<open>
  \<^verbatim>\<open>getCached(key)\<close> at time \<open>now\<close>: the value or \<^verbatim>\<open>null\<close>, and the cache afterwards.
  An entry is an object, so \<^verbatim>\<open>!entry\<close> holds only for a missing key.
\<close>

definition getCached :: "string \<Rightarrow> int \<Rightarrow> cache \<Rightarrow> string option \<times> cache" where
  "getCached key now c =
     (case map_get c key of
        None \<Rightarrow> (None, c)
      | Some entry \<Rightarrow>
          if now > expiresAt entry then (None, map_delete key c)
          else (Some (cached entry), map_set key entry (map_delete key c)))"

text \<open>
  \<^verbatim>\<open>setCache(key, value, ttlMs)\<close> at time \<open>now\<close>. \<^verbatim>\<open>cache.keys().next().value\<close> is the
  first key, or \<^verbatim>\<open>undefined\<close> for an empty map; \<^verbatim>\<open>if (lruKey)\<close> is a truthiness test,
  which the empty string fails as \<^verbatim>\<open>undefined\<close> does.
\<close>

definition setCache :: "string \<Rightarrow> string \<Rightarrow> int \<Rightarrow> int \<Rightarrow> cache \<Rightarrow> cache" where
  "setCache key v ttlMs now c =
     (let c1 = (if length c \<ge> MAX_ENTRIES
                then (case c of
                        [] \<Rightarrow> c
                      | (lruKey, _) # _ \<Rightarrow> if lruKey \<noteq> [] then map_delete lruKey c else c)
                else c)
      in map_set key \<lparr>cached = v, expiresAt = now + ttlMs\<rparr> c1)"

text \<open>
  A cache in good order: its keys are distinct, it holds at most \<^verbatim>\<open>MAX_ENTRIES\<close>
  entries, and the empty string is not among its keys.
\<close>

definition cache_ok :: "cache \<Rightarrow> bool" where
  "cache_ok c = (distinct (map fst c) \<and> length c \<le> MAX_ENTRIES \<and> [] \<notin> fst ` set c)"

text \<open>A sequence of cache operations, each with the time at which it runs.\<close>

datatype cache_op = Get string int | Put string string int int

fun cache_step :: "cache \<Rightarrow> cache_op \<Rightarrow> cache" where
  "cache_step c (Get key now) = snd (getCached key now c)"
| "cache_step c (Put key v ttlMs now) = setCache key v ttlMs now c"

definition cache_run :: "cache_op list \<Rightarrow> cache \<Rightarrow> cache" where
  "cache_run ops c = foldl cache_step c ops"

fun op_key :: "cache_op \<Rightarrow> string" where
  "op_key (Get key _) = key"
| "op_key (Put key _ _ _) = key"

text \<open>
  A workload of \<open>n\<close> writes at time 0 with the default lifetime: the first under the
  empty key, the \<open>i\<close>-th under the key of \<open>i\<close> letters k.
\<close>

definition fill_ops :: "nat \<Rightarrow> cache_op list" where
  "fill_ops n = map (\<lambda>i. Put (replicate i (CHR ''k'')) ''v'' DEFAULT_TTL_MS 0) [0..<n]"

section \<open>JavaScript values and the standard library\<close>

text \<open>
  What \<^verbatim>\<open>JSON.parse\<close> can return. An object is the list of its own properties, in order,
  with distinct keys. \<^verbatim>\<open>undefined\<close> is the \<open>None\<close> of a \<open>json option\<close>. A number
  of a JSON text is given by the real it denotes (the parser tests it for zero and
  prints it, and computes nothing with it), and a string is a list of characters
  standing for its UTF-16 code units.
\<close>

datatype json =
    JNull
  | JBool bool
  | JNum real
  | JStr string
  | JArr "json list"
  | JObj "(string \<times> json) list"

text \<open>
  The string functions, the regular expressions and the JSON parser that the code calls
  are parameters, so that what is proved holds whatever they compute. A regular expression
  is named after its use and stands for the call the comment gives; \<open>None\<close> is a
  failed match (\<^verbatim>\<open>null\<close>) and, for \<^verbatim>\<open>JSON.parse\<close>, a thrown SyntaxError.
  \<open>flattenToMarkdown\<close> (utils/formatters.ts) walks an object of any shape; it can throw
  (a \<^verbatim>\<open>null\<close> section, a property that cannot be made a string), which is its \<open>None\<close>.
\<close>

record js_lib =
  toLowerCase :: "string \<Rightarrow> string"
  trim :: "string \<Rightarrow> string"
  trimStart :: "string \<Rightarrow> string"
  split_whitespace :: "string \<Rightarrow> string list"
    \<comment> \<open>\<^verbatim>\<open>s.split(/\s+/)\<close>\<close>
  replace_first :: "string \<Rightarrow> string \<Rightarrow> string \<Rightarrow> string"
    \<comment> \<open>\<^verbatim>\<open>s.replace(pattern, replacement)\<close> with a string pattern\<close>
  replace_all :: "string \<Rightarrow> string \<Rightarrow> string \<Rightarrow> string"
    \<comment> \<open>\<^verbatim>\<open>s.replaceAll(pattern, replacement)\<close> with a string pattern\<close>
  JSON_parse :: "string \<Rightarrow> json option"
  to_String :: "json \<Rightarrow> string"
    \<comment> \<open>\<^verbatim>\<open>String(v)\<close> for a value that is not an object\<close>
  match_outer_fence :: "string \<Rightarrow> string option"
    \<comment> \<open>group 1 of \<^verbatim>\<open>/^```(?:json|JSON)?\s*\n([\s\S]*)\n\s*```\s*$/\<close>\<close>
  strip_fence_start :: "string \<Rightarrow> string"
    \<comment> \<open>\<^verbatim>\<open>s.replace(/^```(?:json|JSON)?\s*\n?/, '')\<close>\<close>
  strip_fence_end :: "string \<Rightarrow> string"
    \<comment> \<open>\<^verbatim>\<open>s.replace(/\n?\s*```\s*$/, '')\<close>\<close>
  match_object :: "string \<Rightarrow> string option"
    \<comment> \<open>group 0 of \<^verbatim>\<open>/\{[\s\S]*\}/\<close>\<close>
  match_answer :: "string \<Rightarrow> string option"
    \<comment> \<open>group 1 of \<^verbatim>\<open>/"answer"\s*:\s*"((?:[^"\\]|\\.)*?)"\s*[,}]/\<close>\<close>
  match_followups :: "string \<Rightarrow> string option"
    \<comment> \<open>group 1 of \<^verbatim>\<open>/"suggestedFollowups"\s*:\s*\[([\s\S]*?)\]/\<close>\<close>
  match_takeaways :: "string \<Rightarrow> string option"
    \<comment> \<open>group 1 of \<^verbatim>\<open>/"keyTakeaways"\s*:\s*\[([\s\S]*?)\]/\<close>\<close>
  match_quoted :: "string \<Rightarrow> string list option"
    \<comment> \<open>all matches of \<^verbatim>\<open>/"([^"]+)"/g\<close>\<close>
  match_wrapper :: "string \<Rightarrow> string \<Rightarrow> string option"
    \<comment> \<open>group 1 of the wrapper expression of \<^verbatim>\<open>sanitizeAnswer\<close> for a field\<close>
  unescape_newlines :: "string \<Rightarrow> string"
    \<comment> \<open>\<^verbatim>\<open>s.replace(/\\n/g, '\n')\<close>\<close>
  unescape_quotes :: "string \<Rightarrow> string"
    \<comment> \<open>\<^verbatim>\<open>s.replace(/\\"/g, '"')\<close>\<close>
  unescape_backslashes :: "string \<Rightarrow> string"
    \<comment> \<open>\<^verbatim>\<open>s.replace(/\\\\/g, '\\')\<close>\<close>
  collapse_blank_lines :: "string \<Rightarrow> string"
    \<comment> \<open>\<^verbatim>\<open>s.replace(/\n{3,}/g, '\n\n')\<close>\<close>
  flattenToMarkdown :: "json \<Rightarrow> string option"

text \<open>Sequencing statements that can throw: the first throw ends the block.\<close>

definition and_then :: "'e + 'a \<Rightarrow> ('a \<Rightarrow> 'e + 'b) \<Rightarrow> 'e + 'b" where
  "and_then r f = (case r of Inl e \<Rightarrow> Inl e | Inr x \<Rightarrow> f x)"

text \<open>
  Reading a property: a TypeError on \<^verbatim>\<open>null\<close>; the own property of an object; and
  \<^verbatim>\<open>undefined\<close> on a boolean, a number, a string or an array, for the property names
  the code reads (answer, suggestedFollowups, keyTakeaways, relatedTopics,
  learningPath).
\<close>

fun get_prop :: "json \<Rightarrow> string \<Rightarrow> js_error + json option" where
  "get_prop JNull key = Inl TypeError"
| "get_prop (JObj props) key = Inr (map_of props key)"
| "get_prop _ key = Inr None"

fun set_entry :: "string \<Rightarrow> json \<Rightarrow> (string \<times> json) list \<Rightarrow> (string \<times> json) list" where
  "set_entry key v [] = [(key, v)]"
| "set_entry key v (kv # rest) =
     (if fst kv = key then (key, v) # rest else kv # set_entry key v rest)"

text \<open>
  Writing a property: on an object it is set. The code writes \<^verbatim>\<open>parsed.answer\<close> only
  after reading a truthy value there, which only an object can give; on the other
  values, which are never reached, the model throws.
\<close>

fun set_prop :: "json \<Rightarrow> string \<Rightarrow> json \<Rightarrow> js_error + json" where
  "set_prop (JObj props) key v = Inr (JObj (set_entry key v props))"
| "set_prop _ key v = Inl TypeError"

fun truthy :: "json option \<Rightarrow> bool" where
  "truthy None = False"
| "truthy (Some JNull) = False"
| "truthy (Some (JBool b)) = b"
| "truthy (Some (JNum n)) = (n \<noteq> 0)"
| "truthy (Some (JStr s)) = (s \<noteq> [])"
| "truthy (Some (JArr _)) = True"
| "truthy (Some (JObj _)) = True"

text \<open>\<^verbatim>\<open>s.split('\n')\<close>, \<^verbatim>\<open>lines.join('\n')\<close>, \<^verbatim>\<open>lines.findIndex(p)\<close> and \<^verbatim>\<open>s.startsWith('{')\<close>.\<close>

fun split_lines :: "string \<Rightarrow> string list" where
  "split_lines [] = [[]]"
| "split_lines (ch # rest) =
     (if ch = CHR 0x0A then [] # split_lines rest
      else (case split_lines rest of
              [] \<Rightarrow> [[ch]]
            | line # others \<Rightarrow> (ch # line) # others))"

fun join_lines :: "string list \<Rightarrow> string" where
  "join_lines [] = []"
| "join_lines [line] = line"
| "join_lines (line # others) = line @ [CHR 0x0A] @ join_lines others"

fun findIndex :: "('a \<Rightarrow> bool) \<Rightarrow> 'a list \<Rightarrow> nat option" where
  "findIndex p [] = None"
| "findIndex p (x # xs) =
     (if p x then Some 0 else (case findIndex p xs of None \<Rightarrow> None | Some i \<Rightarrow> Some (Suc i)))"

fun startsWith_brace :: "string \<Rightarrow> bool" where
  "startsWith_brace [] = False"
| "startsWith_brace (ch # _) = (ch = CHR 0x7B)"

text \<open>\<^verbatim>\<open>s.replace(/"/g, '')\<close>\<close>

definition strip_quotes :: "string \<Rightarrow> string" where
  "strip_quotes s = filter (\<lambda>ch. ch \<noteq> CHR 0x22) s"

section \<open>Embeddings (services/ai.ts)\<close>

type_synonym vec = "real list"

fun hash_loop :: "nat \<Rightarrow> nat \<Rightarrow> string \<Rightarrow> vec \<Rightarrow> vec" where
  "hash_loop dims i [] embedding = embedding"
| "hash_loop dims i (ch # rest) embedding =
     hash_loop dims (Suc i) rest
       (embedding[i mod dims := embedding ! (i mod dims) + real (of_char ch) / 255])"

text \<open>\<^verbatim>\<open>simpleHashEmbedding(text)\<close>, with the default \<^verbatim>\<open>dims = 384\<close> of every call.\<close>

definition simpleHashEmbedding :: "js_lib \<Rightarrow> string \<Rightarrow> vec" where
  "simpleHashEmbedding js txt =
     (let dims = 384;
          normalized = trim js (toLowerCase js txt);
          embedding = hash_loop dims 0 normalized (replicate dims 0);
          magnitude = sqrt (foldl (\<lambda>sum v. sum + v * v) 0 embedding)
      in if magnitude > 0 then map (\<lambda>v. v / magnitude) embedding else embedding)"

text \<open>
  What the one \<^verbatim>\<open>fetch\<close> of a call can do: reject (network error, abort on timeout);
  answer with a status that is not ok; answer ok with a body that is not JSON, or whose
  \<^verbatim>\<open>embeddings\<close> cannot be mapped over; or answer ok with a list of embeddings, whose
  \<^verbatim>\<open>values\<close> are returned as they are.
\<close>

datatype fetch_outcome =
    FetchRejected
  | ResponseNotOk int
  | BodyNotJson
  | BodyMalformed
  | Embeddings "vec list"

datatype embed_error = EmbedError

text \<open>The body of the \<^verbatim>\<open>try\<close>: \<open>Inl\<close> is a throw.\<close>

definition generateEmbeddings_try ::
  "js_lib \<Rightarrow> AiConfig \<Rightarrow> fetch_outcome \<Rightarrow> string list \<Rightarrow> embed_error + vec list" where
  "generateEmbeddings_try js cfg api texts =
     (let key = (if embeddingApiKey cfg \<noteq> [] then embeddingApiKey cfg
                 else apiKey (gemini cfg gemini1))
      in if key \<noteq> []
         then (case api of
                 Embeddings vs \<Rightarrow> Inr vs
               | _ \<Rightarrow> Inl EmbedError)
         else Inr (map (simpleHashEmbedding js) texts))"

text \<open>The function: the \<^verbatim>\<open>catch\<close> block logs and returns the hash embeddings.\<close>

definition generateEmbeddings ::
  "js_lib \<Rightarrow> AiConfig \<Rightarrow> fetch_outcome \<Rightarrow> string list \<Rightarrow> embed_error + vec list" where
  "generateEmbeddings js cfg api texts =
     (case generateEmbeddings_try js cfg api texts of
        Inr vs \<Rightarrow> Inr vs
      | Inl _ \<Rightarrow> Inr (map (simpleHashEmbedding js) texts))"

section \<open>The output parser (utils/formatters.ts, mcp/rag/index.ts)\<close>

text \<open>\<^verbatim>\<open>sanitizeAnswer\<close> on a string: the wrapper is stripped, escapes are undone.\<close>

definition sanitize_text :: "js_lib \<Rightarrow> string \<Rightarrow> string \<Rightarrow> string" where
  "sanitize_text js field text0 =
     (let text1 = (case match_wrapper js field text0 of Some inner \<Rightarrow> inner | None \<Rightarrow> text0);
          text2 = unescape_newlines js text1;
          text3 = unescape_quotes js text2;
          text4 = unescape_backslashes js text3;
          text5 = collapse_blank_lines js text4
      in trim js text5)"

text \<open>
  \<^verbatim>\<open>sanitizeAnswer(input)\<close>, with the default field \<^verbatim>\<open>'answer'\<close> of every call in the
  parser. \<^verbatim>\<open>typeof input === 'object' && input !== null\<close> holds for objects and arrays.
\<close>

fun sanitizeAnswer :: "js_lib \<Rightarrow> json \<Rightarrow> js_error + string" where
  "sanitizeAnswer js (JObj props) =
     (case flattenToMarkdown js (JObj props) of None \<Rightarrow> Inl TypeError | Some s \<Rightarrow> Inr s)"
| "sanitizeAnswer js (JArr items) =
     (case flattenToMarkdown js (JArr items) of None \<Rightarrow> Inl TypeError | Some s \<Rightarrow> Inr s)"
| "sanitizeAnswer js (JStr s) = Inr (sanitize_text js ''answer'' s)"
| "sanitizeAnswer js v = Inr (sanitize_text js ''answer'' (to_String js v))"

text \<open>The first lines of \<^verbatim>\<open>parseJSON\<close>: the outermost code fence is stripped.\<close>

definition clean :: "js_lib \<Rightarrow> string \<Rightarrow> string" where
  "clean js raw =
     (let cleaned = trim js raw
      in case match_outer_fence js cleaned of
           Some inner \<Rightarrow> trim js inner
         | None \<Rightarrow> trim js (strip_fence_end js (strip_fence_start js cleaned)))"

text \<open>
  \<^verbatim>\<open>if (parsed.answer) { parsed.answer = sanitizeAnswer(parsed.answer); ... }\<close>: the object
  with its answer sanitized when the answer is truthy, \<open>None\<close> when it is not.
\<close>

definition with_sanitized_answer :: "js_lib \<Rightarrow> json \<Rightarrow> js_error + json option" where
  "with_sanitized_answer js parsed =
     and_then (get_prop parsed ''answer'') (\<lambda>a.
       case a of
         None \<Rightarrow> Inr None
       | Some v \<Rightarrow>
           if truthy (Some v)
           then and_then (sanitizeAnswer js v) (\<lambda>s.
                  and_then (set_prop parsed ''answer'' (JStr s)) (\<lambda>p. Inr (Some p)))
           else Inr None)"

text \<open>
  The bodies of the four \<^verbatim>\<open>try\<close> blocks. \<open>Inl\<close> is a throw, \<open>Inr (Some v)\<close> is
  \<^verbatim>\<open>return v\<close>, and \<open>Inr None\<close> is reaching the end of the block.
\<close>

definition attempt1 :: "js_lib \<Rightarrow> string \<Rightarrow> js_error + json option" where
  "attempt1 js cleaned =
     (case JSON_parse js cleaned of
        None \<Rightarrow> Inl SyntaxError
      | Some parsed \<Rightarrow>
          and_then (with_sanitized_answer js parsed) (\<lambda>r.
            case r of Some p \<Rightarrow> Inr (Some p) | None \<Rightarrow> Inr (Some parsed)))"

definition attempt2 :: "js_lib \<Rightarrow> string \<Rightarrow> js_error + json option" where
  "attempt2 js cleaned =
     (case match_object js cleaned of
        None \<Rightarrow> Inr None
      | Some jsonMatch \<Rightarrow>
          (case JSON_parse js jsonMatch of
             None \<Rightarrow> Inl SyntaxError
           | Some parsed \<Rightarrow> with_sanitized_answer js parsed))"

definition attempt3 :: "js_lib \<Rightarrow> string \<Rightarrow> js_error + json option" where
  "attempt3 js cleaned =
     (let lines = split_lines cleaned
      in case findIndex (\<lambda>l. startsWith_brace (trimStart js l)) lines of
           None \<Rightarrow> Inr None
         | Some jsonStartIdx \<Rightarrow>
             (case JSON_parse js (join_lines (drop jsonStartIdx lines)) of
                None \<Rightarrow> Inl SyntaxError
              | Some parsed \<Rightarrow> with_sanitized_answer js parsed))"

text \<open>
  \<^verbatim>\<open>m ? m[1].match(/"([^"]+)"/g)?.map(s => s.replace(/"/g, '')) ?? [] : []\<close>
\<close>

definition quoted_items :: "js_lib \<Rightarrow> string option \<Rightarrow> string list" where
  "quoted_items js m =
     (case m of
        None \<Rightarrow> []
      | Some inner \<Rightarrow>
          (case match_quoted js inner of None \<Rightarrow> [] | Some qs \<Rightarrow> map strip_quotes qs))"

definition answer_object :: "string \<Rightarrow> string list \<Rightarrow> string list \<Rightarrow> json" where
  "answer_object a followups takeaways =
     JObj [(''answer'', JStr a),
           (''suggestedFollowups'', JArr (map JStr followups)),
           (''keyTakeaways'', JArr (map JStr takeaways))]"

definition attempt4 :: "js_lib \<Rightarrow> string \<Rightarrow> js_error + json option" where
  "attempt4 js cleaned =
     (case match_answer js cleaned of
        None \<Rightarrow> Inr None
      | Some answerMatch \<Rightarrow>
          and_then (sanitizeAnswer js (JStr answerMatch)) (\<lambda>a.
            Inr (Some (answer_object a
                         (quoted_items js (match_followups js cleaned))
                         (quoted_items js (match_takeaways js cleaned))))))"

text \<open>\<^verbatim>\<open>try { ... } catch { /* fall through */ }\<close>: a throw is swallowed.\<close>

definition caught :: "js_error + json option \<Rightarrow> json option" where
  "caught r = (case r of Inl _ \<Rightarrow> None | Inr v \<Rightarrow> v)"

text \<open>The first strategy that returns, if any.\<close>

definition recovered :: "js_lib \<Rightarrow> string \<Rightarrow> json option" where
  "recovered js cleaned =
     (case caught (attempt1 js cleaned) of
        Some v \<Rightarrow> Some v
      | None \<Rightarrow>
     (case caught (attempt2 js cleaned) of
        Some v \<Rightarrow> Some v
      | None \<Rightarrow>
     (case caught (attempt3 js cleaned) of
        Some v \<Rightarrow> Some v
      | None \<Rightarrow> caught (attempt4 js cleaned))))"

text \<open>
  \<^verbatim>\<open>parseJSON(raw)\<close>. The last statement stands outside every \<^verbatim>\<open>try\<close>: a throw of
  \<^verbatim>\<open>sanitizeAnswer\<close> there would leave the function.
\<close>

definition parseJSON :: "js_lib \<Rightarrow> string \<Rightarrow> js_error + json" where
  "parseJSON js raw =
     (let cleaned = clean js raw
      in case recovered js cleaned of
           Some v \<Rightarrow> Inr v
         | None \<Rightarrow>
             and_then (sanitizeAnswer js (JStr cleaned)) (\<lambda>a. Inr (answer_object a [] [])))"




section \<open>JavaScript numbers\<close>

text \<open>
  The numbers of the retrieval pipeline are IEEE 754 doubles: a finite double, given by
  the real number it denotes, an infinity, or \<^verbatim>\<open>NaN\<close>. The sign of a zero is left out:
  the pipeline divides by the length of a non-empty array only, and compares, so that
  the two zeros behave alike.
\<close>

datatype number = Finite real | PosInf | NegInf | NaN

text \<open>
  Rounding of an exact result to a double, to nearest with ties to even: 53 significant
  bits, the least exponent -1022 (below it the spacing stays \<open>2 powr -1074\<close>, which
  gives the subnormal numbers and rounds to zero what is smaller than half of it), and
  an infinity from \<open>2 ^ 1024\<close> on.
\<close>

definition round_half_even :: "real \<Rightarrow> int" where
  "round_half_even y =
     (let f = \<lfloor>y\<rfloor>; r = y - of_int f
      in if r < 1/2 then f else if 1/2 < r then f + 1 else if even f then f else f + 1)"

definition exponent :: "real \<Rightarrow> int" where
  "exponent x = max \<lfloor>log 2 \<bar>x\<bar>\<rfloor> (- 1022)"

definition ulp :: "real \<Rightarrow> real" where
  "ulp x = 2 powr of_int (exponent x - 52)"

definition round_double :: "real \<Rightarrow> real" where
  "round_double x = (if x = 0 then 0 else of_int (round_half_even (x / ulp x)) * ulp x)"

definition to_number :: "real \<Rightarrow> number" where
  "to_number x =
     (let y = round_double x
      in if 2 ^ 1024 \<le> y then PosInf else if y \<le> - (2 ^ 1024) then NegInf else Finite y)"

text \<open>A decimal literal of the source, such as \<^verbatim>\<open>0.3\<close>, is the double nearest to it.\<close>

definition literal :: "real \<Rightarrow> number" where
  "literal x = to_number x"

text \<open>\<^verbatim>\<open>-a\<close>, \<^verbatim>\<open>a + b\<close> and \<^verbatim>\<open>a - b\<close>\<close>

fun num_neg :: "number \<Rightarrow> number" where
  "num_neg (Finite a) = Finite (- a)"
| "num_neg PosInf = NegInf"
| "num_neg NegInf = PosInf"
| "num_neg NaN = NaN"

fun num_add :: "number \<Rightarrow> number \<Rightarrow> number" where
  "num_add (Finite a) (Finite b) = to_number (a + b)"
| "num_add (Finite a) PosInf = PosInf"
| "num_add (Finite a) NegInf = NegInf"
| "num_add PosInf (Finite b) = PosInf"
| "num_add PosInf PosInf = PosInf"
| "num_add NegInf (Finite b) = NegInf"
| "num_add NegInf NegInf = NegInf"
| "num_add PosInf NegInf = NaN"
| "num_add NegInf PosInf = NaN"
| "num_add NaN b = NaN"
| "num_add a NaN = NaN"

definition num_sub :: "number \<Rightarrow> number \<Rightarrow> number" where
  "num_sub a b = num_add a (num_neg b)"

text \<open>\<^verbatim>\<open>a >= b\<close> and \<^verbatim>\<open>a < b\<close>: false when an operand is \<^verbatim>\<open>NaN\<close>.\<close>

fun num_ge :: "number \<Rightarrow> number \<Rightarrow> bool" where
  "num_ge NaN b = False"
| "num_ge a NaN = False"
| "num_ge PosInf b = True"
| "num_ge a NegInf = True"
| "num_ge (Finite a) (Finite b) = (b \<le> a)"
| "num_ge (Finite a) PosInf = False"
| "num_ge NegInf b = False"

definition num_lt :: "number \<Rightarrow> number \<Rightarrow> bool" where
  "num_lt a b = (num_ge b a \<and> \<not> num_ge a b)"

text \<open>\<^verbatim>\<open>Math.min(a, b)\<close>\<close>

definition num_min :: "number \<Rightarrow> number \<Rightarrow> number" where
  "num_min a b = (if a = NaN \<or> b = NaN then NaN else if num_ge a b then b else a)"

text \<open>
  \<^verbatim>\<open>a / xs.length\<close>: the length of an array is an integer below \<open>2 ^ 32\<close>, which is a
  double.
\<close>

fun num_div_length :: "number \<Rightarrow> nat \<Rightarrow> number" where
  "num_div_length (Finite a) n =
     (if n = 0 then (if a = 0 then NaN else if 0 < a then PosInf else NegInf)
      else to_number (a / real n))"
| "num_div_length PosInf n = PosInf"
| "num_div_length NegInf n = NegInf"
| "num_div_length NaN n = NaN"

section \<open>The retrieval pipeline (mcp/rag/index.ts)\<close>

datatype Level = beginner | intermediate | expert

fun level_name :: "Level \<Rightarrow> string" where
  "level_name beginner = ''beginner''"
| "level_name intermediate = ''intermediate''"
| "level_name expert = ''expert''"

text \<open>
  \<^verbatim>\<open>CONFIDENCE\<close> of config/constants.ts: an answer counts as well grounded from
  \<^verbatim>\<open>HIGH\<close> on.
\<close>

definition CONFIDENCE_HIGH :: number where
  "CONFIDENCE_HIGH = literal (6/10)"

definition CONFIDENCE_LOW :: number where
  "CONFIDENCE_LOW = literal (3/10)"

text \<open>
  What \<^verbatim>\<open>queryDocuments\<close> returns: four arrays. A document or a metadata record can be
  \<^verbatim>\<open>null\<close> in the store's answer. Of a metadata record the code reads \<^verbatim>\<open>source\<close> and
  \<^verbatim>\<open>url\<close>.
\<close>

record Metadata =
  meta_source :: "string option"
  meta_url :: "string option"

record QueryResults =
  ids :: "string list"
  documents :: "string option list"
  metadatas :: "Metadata option list"
  distances :: "number list"

text \<open>
  A scored chunk. \<^verbatim>\<open>xs[i]\<close> past the end of an array is \<^verbatim>\<open>undefined\<close>: a missing
  content, metadata or distance is \<open>None\<close>, and a number computed from a missing
  distance is \<^verbatim>\<open>NaN\<close>.
\<close>

record Chunk =
  chunk_id :: string
  content :: "string option"
  metadata :: "Metadata option"
  distance :: "number option"
  similarity :: number

definition item_at :: "'a list \<Rightarrow> nat \<Rightarrow> 'a option" where
  "item_at xs i = (if i < length xs then Some (xs ! i) else None)"

definition at_nullable :: "'a option list \<Rightarrow> nat \<Rightarrow> 'a option" where
  "at_nullable xs i = (case item_at xs i of Some (Some x) \<Rightarrow> Some x | _ \<Rightarrow> None)"

text \<open>Step 3: \<^verbatim>\<open>results.ids.map((id, i) => ...)\<close> with \<^verbatim>\<open>similarity: 1 - distances[i]\<close>.\<close>

definition scoredChunks :: "QueryResults \<Rightarrow> Chunk list" where
  "scoredChunks results =
     map (\<lambda>(i, cid).
            \<lparr>chunk_id = cid,
             content = at_nullable (documents results) i,
             metadata = at_nullable (metadatas results) i,
             distance = item_at (distances results) i,
             similarity =
               num_sub (Finite 1)
                 (case item_at (distances results) i of None \<Rightarrow> NaN | Some d \<Rightarrow> d)\<rparr>)
         (enumerate 0 (ids results))"

text \<open>\<^verbatim>\<open>s.startsWith(t)\<close> and \<^verbatim>\<open>s.includes(t)\<close> on code units.\<close>

fun startsWith :: "string \<Rightarrow> string \<Rightarrow> bool" where
  "startsWith s [] = True"
| "startsWith [] (c # cs) = False"
| "startsWith (x # xs) (c # cs) = (x = c \<and> startsWith xs cs)"

fun includes_str :: "string \<Rightarrow> string \<Rightarrow> bool" where
  "includes_str [] t = (t = [])"
| "includes_str (x # xs) t = (startsWith (x # xs) t \<or> includes_str xs t)"

text \<open>\<^verbatim>\<open>query.toLowerCase().split(/\s+/).filter(w => w.length > 2)\<close>\<close>

definition queryTerms :: "js_lib \<Rightarrow> string \<Rightarrow> string list" where
  "queryTerms js query = filter (\<lambda>w. length w > 2) (split_whitespace js (toLowerCase js query))"

text \<open>
  Step 3b, for one chunk: \<^verbatim>\<open>chunk.content.toLowerCase()\<close> throws on a missing content;
  every query term found in the content adds \<^verbatim>\<open>0.05\<close>, one rounded addition per
  term.
\<close>

definition boost_chunk :: "js_lib \<Rightarrow> string list \<Rightarrow> Chunk \<Rightarrow> js_error + Chunk" where
  "boost_chunk js terms chunk =
     (case content chunk of
        None \<Rightarrow> Inl TypeError
      | Some c \<Rightarrow>
          Inr (foldl (\<lambda>ch term.
                        if includes_str (toLowerCase js c) term
                        then ch\<lparr>similarity := num_add (similarity ch) (literal (5/100))\<rparr>
                        else ch)
                     chunk terms))"

fun boost_all :: "js_lib \<Rightarrow> string list \<Rightarrow> Chunk list \<Rightarrow> js_error + Chunk list" where
  "boost_all js terms [] = Inr []"
| "boost_all js terms (chunk # rest) =
     and_then (boost_chunk js terms chunk) (\<lambda>c.
       and_then (boost_all js terms rest) (\<lambda>cs. Inr (c # cs)))"

text \<open>The scores the filter sees: the similarity of every neighbour after the boost.\<close>

definition boosted :: "js_lib \<Rightarrow> string \<Rightarrow> QueryResults \<Rightarrow> js_error + Chunk list" where
  "boosted js query results = boost_all js (queryTerms js query) (scoredChunks results)"

text \<open>\<^verbatim>\<open>c.similarity >= 0.3\<close>: a comparison of two doubles, false for \<^verbatim>\<open>NaN\<close>.\<close>

definition relevant :: "Chunk \<Rightarrow> bool" where
  "relevant c = num_ge (similarity c) (literal (3/10))"

text \<open>
  \<^verbatim>\<open>.sort((a, b) => b.similarity - a.similarity)\<close>: \<open>a\<close> goes behind \<open>b\<close> when the
  comparator gives a number above zero. The sort of the runtime is stable, and on the
  chunks that pass the filter the comparator is consistent, so that the result is the
  one of this insertion sort, in which an element stays in front of those it does not
  have to go behind.
\<close>

definition compare_chunks :: "Chunk \<Rightarrow> Chunk \<Rightarrow> number" where
  "compare_chunks a b = num_sub (similarity b) (similarity a)"

fun insert_chunk :: "Chunk \<Rightarrow> Chunk list \<Rightarrow> Chunk list" where
  "insert_chunk a [] = [a]"
| "insert_chunk a (b # rest) =
     (if num_lt (Finite 0) (compare_chunks a b) then b # insert_chunk a rest
      else a # b # rest)"

definition sort_chunks :: "Chunk list \<Rightarrow> Chunk list" where
  "sort_chunks chunks = foldr insert_chunk chunks []"

text \<open>\<^verbatim>\<open>.filter(...).sort(...).slice(0, config.rag.rerankTop)\<close>\<close>

definition relevantChunks :: "nat \<Rightarrow> Chunk list \<Rightarrow> Chunk list" where
  "relevantChunks rerankTop scored = take rerankTop (sort_chunks (filter relevant scored))"

record Citation =
  cit_text :: string
  cit_source :: string
  cit_url :: "string option"
  relevance :: number

text \<open>
  An answer. \<^verbatim>\<open>parsed.answer ?? rawResponse\<close> and \<^verbatim>\<open>parsed.suggestedFollowups ?? []\<close> pass
  on whatever the parsed object holds, so these fields are JavaScript values;
  \<^verbatim>\<open>findRelated\<close> leaves \<^verbatim>\<open>keyTakeaways\<close> out.
\<close>

record RAGResult =
  answer :: json
  sources :: "Citation list"
  confidence :: number
  suggestedFollowups :: json
  keyTakeaways :: "json option"

record InteractionRecord =
  asked :: string
  response :: "string option"

text \<open>
  The surroundings of one request. The prompt templates and the two registries of labs
  and courses are constants of other modules. \<open>retrieval\<close> is what
  \<^verbatim>\<open>generateEmbedding\<close> followed by \<^verbatim>\<open>queryDocuments\<close> gives for this request (for its
  query, topK and filters); \<open>complete n p\<close> is what the \<open>n\<close>-th call of
  \<^verbatim>\<open>generateCompletion\<close> gives on the user prompt \<open>p\<close>; the clock is read by
  \<^verbatim>\<open>getCached\<close> and by \<^verbatim>\<open>setCache\<close>.
\<close>

record rag_env =
  RAG_ANSWER_PROMPT :: string
  LLM_ANSWER_PROMPT :: string
  RELATED_PROMPT :: string
  rerankTop :: nat
  retrieval :: "js_error + QueryResults"
  complete :: "nat \<Rightarrow> string \<Rightarrow> LLMError + string"
  now_read :: int
  now_write :: int
  number_text :: "nat \<Rightarrow> string"
  appendLabs :: "json \<Rightarrow> string \<Rightarrow> Level \<Rightarrow> json"
  appendCourses :: "json \<Rightarrow> string \<Rightarrow> Level \<Rightarrow> json"
  render_related :: "json \<Rightarrow> string \<Rightarrow> js_error + json"

text \<open>
  The state a request changes: the response cache, the field \<^verbatim>\<open>lastConfidence\<close>, and
  (as a log) the user prompts handed to \<^verbatim>\<open>generateCompletion\<close>.
\<close>

record rag_state =
  response_cache :: cache
  lastConfidence :: number
  prompts_sent :: "string list"

datatype rag_error = JsError js_error | LlmError LLMError

definition js_step :: "js_error + 'a \<Rightarrow> rag_error + 'a" where
  "js_step r = (case r of Inl e \<Rightarrow> Inl (JsError e) | Inr x \<Rightarrow> Inr x)"

definition llm_step :: "LLMError + 'a \<Rightarrow> rag_error + 'a" where
  "llm_step r = (case r of Inl e \<Rightarrow> Inl (LlmError e) | Inr x \<Rightarrow> Inr x)"

text \<open>\<^verbatim>\<open>x ?? d\<close>\<close>

fun coalesce :: "json option \<Rightarrow> json \<Rightarrow> json" where
  "coalesce None d = d"
| "coalesce (Some JNull) d = d"
| "coalesce (Some v) d = v"

definition makeCacheKey :: "js_lib \<Rightarrow> string \<Rightarrow> string \<Rightarrow> string \<Rightarrow> string" where
  "makeCacheKey js command query level =
     command @ '':'' @ level @ '':'' @ trim js (toLowerCase js query)"

fun join_with :: "string \<Rightarrow> string list \<Rightarrow> string" where
  "join_with sep [] = []"
| "join_with sep [s] = s"
| "join_with sep (s # rest) = s @ sep @ join_with sep rest"

text \<open>
  \<^verbatim>\<open>formatHistory\<close>: the last three records; a missing response prints as
  \<^verbatim>\<open>undefined\<close>.
\<close>

definition formatHistory :: "InteractionRecord list option \<Rightarrow> string" where
  "formatHistory history =
     (case history of
        None \<Rightarrow> ''No previous interactions.''
      | Some h \<Rightarrow>
          if h = [] then ''No previous interactions.''
          else join_with ([CHR 0x0A] @ ''---'' @ [CHR 0x0A])
                 (map (\<lambda>r. ''Q: '' @ asked r @ [CHR 0x0A] @ ''A: ''
                            @ (case response r of None \<Rightarrow> ''undefined'' | Some a \<Rightarrow> take 100 a)
                            @ ''...'')
                      (drop (length h - 3) h)))"

text \<open>
  Step 4: the context string. \<^verbatim>\<open>c.metadata.source\<close> throws on a missing metadata
  record; a missing content prints as \<^verbatim>\<open>undefined\<close>.
\<close>

definition chunk_with_id :: "rag_env \<Rightarrow> nat \<times> Chunk \<Rightarrow> js_error + string" where
  "chunk_with_id env ic =
     (case metadata (snd ic) of
        None \<Rightarrow> Inl TypeError
      | Some m \<Rightarrow>
          Inr (''['' @ number_text env (fst ic + 1) @ ''] Source: ''
               @ (case meta_source m of None \<Rightarrow> ''Unknown'' | Some s \<Rightarrow> s)
               @ [CHR 0x0A]
               @ (case content (snd ic) of None \<Rightarrow> ''undefined'' | Some c \<Rightarrow> c)))"

fun all_or_throw :: "('a \<Rightarrow> js_error + 'b) \<Rightarrow> 'a list \<Rightarrow> js_error + 'b list" where
  "all_or_throw f [] = Inr []"
| "all_or_throw f (x # xs) =
     and_then (f x) (\<lambda>y. and_then (all_or_throw f xs) (\<lambda>ys. Inr (y # ys)))"

definition chunksWithIds :: "rag_env \<Rightarrow> Chunk list \<Rightarrow> js_error + string" where
  "chunksWithIds env chunks =
     and_then (all_or_throw (chunk_with_id env) (enumerate 0 chunks)) (\<lambda>parts.
       Inr (join_with ([CHR 0x0A, CHR 0x0A] @ ''---'' @ [CHR 0x0A, CHR 0x0A]) parts))"

text \<open>Step 5: the four \<^verbatim>\<open>replace\<close> calls on the template.\<close>

definition rag_prompt ::
  "js_lib \<Rightarrow> rag_env \<Rightarrow> string \<Rightarrow> Level \<Rightarrow> string \<Rightarrow> string \<Rightarrow> string" where
  "rag_prompt js env query level context historyStr =
     replace_first js
       (replace_first js
          (replace_first js
             (replace_first js (RAG_ANSWER_PROMPT env) ''{question}'' query)
             ''{level}'' (level_name level))
          ''{chunks_with_source_ids}'' context)
       ''{recent_history}'' historyStr"

definition llm_prompt :: "js_lib \<Rightarrow> rag_env \<Rightarrow> string \<Rightarrow> Level \<Rightarrow> string \<Rightarrow> string" where
  "llm_prompt js env query level historyStr =
     replace_first js
       (replace_first js
          (replace_first js (LLM_ANSWER_PROMPT env) ''{question}'' query)
          ''{level}'' (level_name level))
       ''{recent_history}'' historyStr"

definition related_prompt :: "js_lib \<Rightarrow> rag_env \<Rightarrow> string \<Rightarrow> Level \<Rightarrow> string" where
  "related_prompt js env concept level =
     replace_first js (replace_all js (RELATED_PROMPT env) ''{concept}'' concept)
       ''{level}'' (level_name level)"

text \<open>Step 7: one citation per chunk that was kept.\<close>

definition citation :: "Chunk \<Rightarrow> js_error + Citation" where
  "citation c =
     (case content c of
        None \<Rightarrow> Inl TypeError
      | Some txt \<Rightarrow>
          (case metadata c of
             None \<Rightarrow> Inl TypeError
           | Some m \<Rightarrow>
               Inr \<lparr>cit_text = take 150 txt @ ''...'',
                    cit_source = (case meta_source m of None \<Rightarrow> ''Unknown'' | Some s \<Rightarrow> s),
                    cit_url = meta_url m,
                    relevance = similarity c\<rparr>))"

text \<open>
  \<^verbatim>\<open>relevantChunks.reduce((sum, c) => sum + c.similarity, 0) / relevantChunks.length\<close>
\<close>

definition avgSimilarity :: "Chunk list \<Rightarrow> number" where
  "avgSimilarity chunks =
     num_div_length (foldl (\<lambda>sum c. num_add sum (similarity c)) (Finite 0) chunks)
       (length chunks)"

text \<open>
  The object a pipeline returns: \<^verbatim>\<open>parsed.answer ?? rawResponse\<close> with labs and courses
  appended, then the two lists of the parsed object.
\<close>

definition build_result ::
  "rag_env \<Rightarrow> json \<Rightarrow> string \<Rightarrow> string \<Rightarrow> Level \<Rightarrow> Citation list \<Rightarrow> number
     \<Rightarrow> js_error + RAGResult" where
  "build_result env parsed rawResponse query level cites conf =
     and_then (get_prop parsed ''answer'') (\<lambda>a.
       and_then (get_prop parsed ''suggestedFollowups'') (\<lambda>f.
         and_then (get_prop parsed ''keyTakeaways'') (\<lambda>k.
           Inr \<lparr>answer = appendCourses env
                            (appendLabs env (coalesce a (JStr rawResponse)) query level)
                            query level,
                sources = cites,
                confidence = conf,
                suggestedFollowups = coalesce f (JArr []),
                keyTakeaways = Some (coalesce k (JArr []))\<rparr>)))"

text \<open>
  The second half of \<^verbatim>\<open>ragPipeline\<close>, from step 4 on, for the chunks that were kept:
  context, prompt, generation, parsing, citations, confidence and the result. The state
  is returned as it stands when the function returns or throws.
\<close>

definition answer_from_chunks ::
  "js_lib \<Rightarrow> rag_env \<Rightarrow> string \<Rightarrow> Level \<Rightarrow> InteractionRecord list option \<Rightarrow> Chunk list
     \<Rightarrow> rag_state \<Rightarrow> (rag_error + RAGResult option) \<times> rag_state" where
  "answer_from_chunks js env query level history kept st =
     (case chunksWithIds env kept of
        Inl e \<Rightarrow> (Inl (JsError e), st)
      | Inr context \<Rightarrow>
          (let prompt = rag_prompt js env query level context (formatHistory history);
               st1 = st\<lparr>prompts_sent := prompts_sent st @ [prompt]\<rparr>
           in case complete env (length (prompts_sent st)) prompt of
                Inl e \<Rightarrow> (Inl (LlmError e), st1)
              | Inr rawResponse \<Rightarrow>
                  (case parseJSON js rawResponse of
                     Inl e \<Rightarrow> (Inl (JsError e), st1)
                   | Inr parsed \<Rightarrow>
                       (case all_or_throw citation kept of
                          Inl e \<Rightarrow> (Inl (JsError e), st1)
                        | Inr citations \<Rightarrow>
                            (let conf = num_min (num_add (avgSimilarity kept) (literal (1/10)))
                                          (literal 1);
                                 st2 = st1\<lparr>lastConfidence := conf\<rparr>
                             in (js_step (map_sum id Some
                                   (build_result env parsed rawResponse query level
                                      citations conf)),
                                 st2))))))"

text \<open>
  \<^verbatim>\<open>ragPipeline\<close>: \<open>Inr None\<close> is \<^verbatim>\<open>return null\<close>, on an empty search result and
  when no chunk passes the filter.
\<close>

definition ragPipeline ::
  "js_lib \<Rightarrow> rag_env \<Rightarrow> string \<Rightarrow> Level \<Rightarrow> InteractionRecord list option \<Rightarrow> rag_state
     \<Rightarrow> (rag_error + RAGResult option) \<times> rag_state" where
  "ragPipeline js env query level history st =
     (case retrieval env of
        Inl e \<Rightarrow> (Inl (JsError e), st)
      | Inr results \<Rightarrow>
          if ids results = [] then (Inr None, st)
          else
            (case boosted js query results of
               Inl e \<Rightarrow> (Inl (JsError e), st)
             | Inr scored \<Rightarrow>
                 (let kept = relevantChunks (rerankTop env) scored
                  in if kept = [] then (Inr None, st)
                     else answer_from_chunks js env query level history kept st)))"

text \<open>
  \<^verbatim>\<open>rawResponse = await generateCompletion(...); setCache(cacheKey, rawResponse)\<close>, on the
  cache \<open>c1\<close> that the lookup left: a throw of the model leaves before the write.
\<close>

definition fresh_completion ::
  "rag_env \<Rightarrow> string \<Rightarrow> string \<Rightarrow> cache \<Rightarrow> rag_state \<Rightarrow> (rag_error + string) \<times> rag_state" where
  "fresh_completion env cacheKey prompt c1 st =
     (case complete env (length (prompts_sent st)) prompt of
        Inl e \<Rightarrow>
          (Inl (LlmError e),
           st\<lparr>response_cache := c1, prompts_sent := prompts_sent st @ [prompt]\<rparr>)
      | Inr rawResponse \<Rightarrow>
          (Inr rawResponse,
           st\<lparr>response_cache := setCache cacheKey rawResponse DEFAULT_TTL_MS (now_write env) c1,
              prompts_sent := prompts_sent st @ [prompt]\<rparr>))"

text \<open>
  The block that \<^verbatim>\<open>llmOnlyAnswer\<close> and \<^verbatim>\<open>findRelated\<close> share: a cached response that is
  truthy (a non-empty string) is used; otherwise the model is called and its response
  stored with the default lifetime.
\<close>

definition cached_completion ::
  "rag_env \<Rightarrow> string \<Rightarrow> string \<Rightarrow> rag_state \<Rightarrow> (rag_error + string) \<times> rag_state" where
  "cached_completion env cacheKey prompt st =
     (case getCached cacheKey (now_read env) (response_cache st) of
        (None, c1) \<Rightarrow> fresh_completion env cacheKey prompt c1 st
      | (Some hit, c1) \<Rightarrow>
          if hit \<noteq> [] then (Inr hit, st\<lparr>response_cache := c1\<rparr>)
          else fresh_completion env cacheKey prompt c1 st)"

text \<open>\<^verbatim>\<open>llmOnlyAnswer\<close>: no sources, and the fixed confidence \<^verbatim>\<open>0.5\<close>.\<close>

definition llmOnlyAnswer ::
  "js_lib \<Rightarrow> rag_env \<Rightarrow> string \<Rightarrow> Level \<Rightarrow> InteractionRecord list option \<Rightarrow> rag_state
     \<Rightarrow> (rag_error + RAGResult) \<times> rag_state" where
  "llmOnlyAnswer js env query level history st =
     (let prompt = llm_prompt js env query level (formatHistory history);
          cacheKey = makeCacheKey js ''ask'' query (level_name level)
      in case cached_completion env cacheKey prompt st of
           (Inl e, st1) \<Rightarrow> (Inl e, st1)
         | (Inr rawResponse, st1) \<Rightarrow>
             (case parseJSON js rawResponse of
                Inl e \<Rightarrow> (Inl (JsError e), st1)
              | Inr parsed \<Rightarrow>
                  (let st2 = st1\<lparr>lastConfidence := literal (5/10)\<rparr>
                   in (js_step (build_result env parsed rawResponse query level []
                                  (lastConfidence st2)),
                       st2))))"

text \<open>
  \<^verbatim>\<open>findRelated\<close>: no retrieval, the fixed confidence \<^verbatim>\<open>0.7\<close>. The text of the answer (the
  list of related topics and the learning path) is put together by \<open>render_related\<close>,
  which throws where the code does (a topic that is \<^verbatim>\<open>null\<close>, a list that is no array).
\<close>

definition findRelated ::
  "js_lib \<Rightarrow> rag_env \<Rightarrow> string \<Rightarrow> Level \<Rightarrow> rag_state \<Rightarrow> (rag_error + RAGResult) \<times> rag_state" where
  "findRelated js env concept level st =
     (let prompt = related_prompt js env concept level;
          cacheKey = makeCacheKey js ''related'' concept (level_name level)
      in case cached_completion env cacheKey prompt st of
           (Inl e, st1) \<Rightarrow> (Inl e, st1)
         | (Inr rawResponse, st1) \<Rightarrow>
             (case parseJSON js rawResponse of
                Inl e \<Rightarrow> (Inl (JsError e), st1)
              | Inr parsed \<Rightarrow>
                  (let st2 = st1\<lparr>lastConfidence := literal (7/10)\<rparr>
                   in (js_step
                         (and_then (render_related env parsed concept) (\<lambda>a.
                            and_then (get_prop parsed ''suggestedFollowups'') (\<lambda>f.
                              Inr \<lparr>answer = a,
                                   sources = [],
                                   confidence = lastConfidence st2,
                                   suggestedFollowups =
                                     coalesce f
                                       (JArr [JStr (''Explain '' @ concept),
                                              JStr (''What are common '' @ concept
                                                    @ '' attack vectors?'')]),
                                   keyTakeaways = None\<rparr>))),
                       st2))))"

text \<open>
  \<^verbatim>\<open>handle\<close>: a related query goes to \<^verbatim>\<open>findRelated\<close>; otherwise the pipeline is tried,
  and both \<^verbatim>\<open>null\<close> and a throw lead to \<^verbatim>\<open>llmOnlyAnswer\<close>.
\<close>

definition handle ::
  "js_lib \<Rightarrow> rag_env \<Rightarrow> string \<Rightarrow> string \<Rightarrow> Level \<Rightarrow> InteractionRecord list option
     \<Rightarrow> rag_state \<Rightarrow> (rag_error + RAGResult) \<times> rag_state" where
  "handle js env action query level history st =
     (if action = ''related'' then findRelated js env query level st
      else
        (case ragPipeline js env query level history st of
           (Inr (Some ragResult), st1) \<Rightarrow> (Inr ragResult, st1)
         | (Inr None, st1) \<Rightarrow> llmOnlyAnswer js env query level history st1
         | (Inl e, st1) \<Rightarrow> llmOnlyAnswer js env query level history st1))"

section \<open>Properties of provider outcomes, and concrete inputs\<close>

text \<open>A completion the loop returns: a text that is present and not empty.\<close>

fun usable :: "outcome \<Rightarrow> bool" where
  "usable (Responded (Some t)) = (t \<noteq> [])"
| "usable _ = False"

text \<open>A provider that the loop skips at time \<open>now\<close>: its cooldown has not run out.\<close>

definition cooling :: "int \<Rightarrow> ProviderState \<Rightarrow> bool" where
  "cooling now p = (rateLimitedUntil p > 0 \<and> now < rateLimitedUntil p)"

text \<open>The first lines of an iteration that does attempt its provider.\<close>

definition begin_attempt :: "call_env \<Rightarrow> nat \<Rightarrow> ProviderSlot \<Rightarrow> call_state \<Rightarrow> call_state" where
  "begin_attempt env i key st =
     st\<lparr>table := interfere env i
                   (if rateLimitedUntil (table st key) > 0
                    then (table st)(key := (table st key)\<lparr>rateLimitedUntil := 0\<rparr>)
                    else table st),
        attempted := attempted st @ [key]\<rparr>"

text \<open>JavaScript's white space among the code units below 256.\<close>

definition is_space :: "char \<Rightarrow> bool" where
  "is_space ch = (of_char ch \<in> {9, 10, 11, 12, 13, 32, 160 :: nat})"

definition blank :: "string \<Rightarrow> bool" where
  "blank s = list_all is_space s"

text \<open>
  A configuration with a key and a model in each of the six slots (as the test suite
  mocks it), and an environment in which the clock stands still, no other call
  interferes and each provider answers the same on every iteration.
\<close>

definition six_keys :: AiConfig where
  "six_keys = \<lparr>gemini = (\<lambda>key. \<lparr>apiKey = ''key'', slotModel = ''model''\<rparr>),
               embeddingApiKey = ''key1'', embeddingModel = ''gemini-embedding-001''\<rparr>"

definition steady :: "int \<Rightarrow> (ProviderSlot \<Rightarrow> outcome) \<Rightarrow> call_env" where
  "steady now answers =
     \<lparr>clock = (\<lambda>i. now), respond = (\<lambda>i. answers), clock_fail = (\<lambda>i. now),
      interfere = (\<lambda>i ps. ps)\<rparr>"

definition http_error :: "int \<Rightarrow> thrown" where
  "http_error n = ThrownObject True (empty_ApiError\<lparr>status := Some n, message := Some ''failed''\<rparr>)"

text \<open>The first provider answers 404 (model not found), every other one answers.\<close>

fun first_not_found :: "ProviderSlot \<Rightarrow> outcome" where
  "first_not_found gemini1 = Threw (http_error 404)"
| "first_not_found _ = Responded (Some ''from the second provider'')"

text \<open>Every provider answers; the first one with three spaces.\<close>

fun first_blank :: "ProviderSlot \<Rightarrow> outcome" where
  "first_blank gemini1 = Responded (Some ''   '')"
| "first_blank _ = Responded (Some ''an answer'')"

text \<open>The first provider answers with the empty string, the others with a text.\<close>

fun first_empty :: "ProviderSlot \<Rightarrow> outcome" where
  "first_empty gemini1 = Responded (Some [])"
| "first_empty _ = Responded (Some ''an answer'')"

definition all_answer :: "ProviderSlot \<Rightarrow> outcome" where
  "all_answer key = Responded (Some ''an answer'')"

definition all_rate_limited :: "ProviderSlot \<Rightarrow> outcome" where
  "all_rate_limited key = Threw (http_error 429)"

text \<open>
  A table in which every provider is cooling: the cooldowns end at different times, the
  second provider's first.
\<close>

fun cooldown_end :: "ProviderSlot \<Rightarrow> int" where
  "cooldown_end gemini1 = 30000"
| "cooldown_end gemini2 = 20000"
| "cooldown_end gemini3 = 40000"
| "cooldown_end gemini4 = 50000"
| "cooldown_end gemini5 = 60000"
| "cooldown_end gemini6 = 70000"

definition all_cooling :: providers where
  "all_cooling = (\<lambda>key. (initial_providers six_keys key)\<lparr>rateLimitedUntil := cooldown_end key\<rparr>)"

text \<open>
  The standard library as it behaves on a restricted set of inputs: texts in lower case
  that neither start nor end with white space, contain no brace, bracket, quote,
  backslash, code fence or placeholder, are not JSON, and queries of a single word. On
  these, lower-casing, trimming and the replacements change nothing, no pattern
  matches, \<^verbatim>\<open>JSON.parse\<close> throws, and \<open>to_String\<close> and \<open>flattenToMarkdown\<close> are
  not reached.
\<close>

definition plain_js :: js_lib where
  "plain_js =
     \<lparr>toLowerCase = (\<lambda>s. s),
      trim = (\<lambda>s. s),
      trimStart = (\<lambda>s. s),
      split_whitespace = (\<lambda>s. [s]),
      replace_first = (\<lambda>s pattern replacement. s),
      replace_all = (\<lambda>s pattern replacement. s),
      JSON_parse = (\<lambda>s. None),
      to_String = (\<lambda>v. []),
      match_outer_fence = (\<lambda>s. None),
      strip_fence_start = (\<lambda>s. s),
      strip_fence_end = (\<lambda>s. s),
      match_object = (\<lambda>s. None),
      match_answer = (\<lambda>s. None),
      match_followups = (\<lambda>s. None),
      match_takeaways = (\<lambda>s. None),
      match_quoted = (\<lambda>s. None),
      match_wrapper = (\<lambda>field s. None),
      unescape_newlines = (\<lambda>s. s),
      unescape_quotes = (\<lambda>s. s),
      unescape_backslashes = (\<lambda>s. s),
      collapse_blank_lines = (\<lambda>s. s),
      flattenToMarkdown = (\<lambda>v. None)\<rparr>"

text \<open>
  The same library on a wider set of inputs: a text whose white space is the space
  character only is trimmed of the spaces at its ends and, when its words are separated
  by single spaces, split at them; the first occurrence of a placeholder is replaced by
  a text without a dollar sign; and \<^verbatim>\<open>JSON.parse\<close> reads the JSON texts \<^verbatim>\<open>true\<close>,
  \<^verbatim>\<open>{}\<close> and \<^verbatim>\<open>{"answer":" hi ","keyTakeaways":[]}\<close>.
\<close>

definition trim_spaces :: "string \<Rightarrow> string" where
  "trim_spaces s =
     rev (dropWhile (\<lambda>ch. ch = CHR 0x20) (rev (dropWhile (\<lambda>ch. ch = CHR 0x20) s)))"

fun split_words :: "string \<Rightarrow> string list" where
  "split_words [] = [[]]"
| "split_words (ch # rest) =
     (if ch = CHR 0x20 then [] # split_words rest
      else (case split_words rest of
              [] \<Rightarrow> [[ch]]
            | word # others \<Rightarrow> (ch # word) # others))"

fun replace_once :: "string \<Rightarrow> string \<Rightarrow> string \<Rightarrow> string" where
  "replace_once [] pattern replacement = (if pattern = [] then replacement else [])"
| "replace_once (ch # rest) pattern replacement =
     (if startsWith (ch # rest) pattern
      then replacement @ drop (length pattern) (ch # rest)
      else ch # replace_once rest pattern replacement)"

definition padded_answer :: string where
  "padded_answer =
     ''{'' @ [CHR 0x22] @ ''answer'' @ [CHR 0x22] @ '':'' @ [CHR 0x22] @ '' hi '' @ [CHR 0x22]
       @ '','' @ [CHR 0x22] @ ''keyTakeaways'' @ [CHR 0x22] @ '':[]}''"

definition parse_sample :: "string \<Rightarrow> json option" where
  "parse_sample s =
     (if s = ''true'' then Some (JBool True)
      else if s = ''{}'' then Some (JObj [])
      else if s = padded_answer
      then Some (JObj [(''answer'', JStr '' hi ''), (''keyTakeaways'', JArr [])])
      else None)"

definition sample_js :: js_lib where
  "sample_js =
     plain_js\<lparr>trim := trim_spaces,
              split_whitespace := split_words,
              replace_first := replace_once,
              JSON_parse := parse_sample\<rparr>"

text \<open>\<^verbatim>\<open>`${n}`\<close> for an index of an array: the decimal digits.\<close>

fun decimal :: "nat \<Rightarrow> string" where
  "decimal n =
     (if n < 10 then [''0123456789'' ! n]
      else decimal (n div 10) @ [''0123456789'' ! (n mod 10)])"

text \<open>
  Search results for the query \<^verbatim>\<open>sql injection\<close>, in which every neighbour holds both
  words of the query. In the first, the only neighbour is at distance \<^verbatim>\<open>0.8\<close>. In the
  second, it is followed by neighbours at the distances \<^verbatim>\<open>0.5\<close> and \<^verbatim>\<open>0.25\<close>.
\<close>

definition handbook :: Metadata where
  "handbook = \<lparr>meta_source = Some ''handbook'', meta_url = None\<rparr>"

definition threshold_neighbour :: QueryResults where
  "threshold_neighbour =
     \<lparr>ids = [''doc1''],
      documents = [Some ''notes about sql injection''],
      metadatas = [Some handbook],
      distances = [literal (8/10)]\<rparr>"

definition three_neighbours :: QueryResults where
  "three_neighbours =
     \<lparr>ids = [''doc1'', ''doc2'', ''doc3''],
      documents = [Some ''notes about sql injection'', Some ''sql injection in login forms'',
                   Some ''blind sql injection''],
      metadatas = [Some handbook, Some handbook, Some handbook],
      distances = [literal (8/10), literal (5/10), literal (25/100)]\<rparr>"

text \<open>The chunks of these neighbours, with their similarities after the boost.\<close>

definition chunk1 :: Chunk where
  "chunk1 = \<lparr>chunk_id = ''doc1'', content = Some ''notes about sql injection'',
             metadata = Some handbook, distance = Some (literal (8/10)),
             similarity = Finite (2702159776422297 / 2 ^ 53)\<rparr>"

definition chunk2 :: Chunk where
  "chunk2 = \<lparr>chunk_id = ''doc2'', content = Some ''sql injection in login forms'',
             metadata = Some handbook, distance = Some (literal (5/10)),
             similarity = Finite (1351079888211149 / 2 ^ 51)\<rparr>"

definition chunk3 :: Chunk where
  "chunk3 = \<lparr>chunk_id = ''doc3'', content = Some ''blind sql injection'',
             metadata = Some handbook, distance = Some (literal (25/100)),
             similarity = Finite (1914029841632461 / 2 ^ 51)\<rparr>"

text \<open>
  A request with a given search result, short templates and empty registries; the model
  answers in plain prose.
\<close>

definition sample_env :: "QueryResults \<Rightarrow> rag_env" where
  "sample_env found =
     \<lparr>RAG_ANSWER_PROMPT = ''{chunks_with_source_ids} | {question}'',
      LLM_ANSWER_PROMPT = ''{question}'',
      RELATED_PROMPT = [],
      rerankTop = 5,
      retrieval = Inr found,
      complete = (\<lambda>n prompt. Inr ''use prepared statements''),
      now_read = 0,
      now_write = 0,
      number_text = decimal,
      appendLabs = (\<lambda>a query level. a),
      appendCourses = (\<lambda>a query level. a),
      render_related = (\<lambda>parsed concept. Inr (JStr []))\<rparr>"

definition fresh_state :: rag_state where
  "fresh_state = \<lparr>response_cache = [], lastConfidence = Finite 0, prompts_sent = []\<rparr>"

section \<open>Verification: the request queue\<close>

lemma granted_releases:
  "snd (snd (generateCompletion_granted cfg env ps q)) = release q"
  by (simp add: generateCompletion_granted_def split: prod.splits sum.splits)

lemma step_Completion:
  "step (Completion c cfg env ps) g = step (Release c) g"
  by (simp add: granted_releases)

lemma step_maxConcurrent:
  "step e g = Some g' \<Longrightarrow> maxConcurrent (queue g') = maxConcurrent (queue g)"
  by (cases e)
     (auto simp: acquire_def release_def hand_over_def granted_releases
           split: if_splits list.splits)

lemma length_remove1_mem:
  "c \<in> set xs \<Longrightarrow> int (length (remove1 c xs)) = int (length xs) - 1"
  by (induction xs) (auto simp: length_remove1)

lemma release_slots_ok:
  assumes "step (Release c) g = Some g'" and "slots_ok g"
  shows "slots_ok g'"
  using assms
  by (auto simp: slots_ok_def release_def hand_over_def length_remove1_mem
           split: if_splits list.splits)

lemma release_fifo_ok:
  assumes "step (Release c) g = Some g'" and "fifo_ok g"
  shows "fifo_ok g'"
  using assms
  by (auto simp: fifo_ok_def release_def hand_over_def split: if_splits list.splits)

lemma step_slots_ok:
  assumes "step e g = Some g'" and "slots_ok g"
  shows "slots_ok g'"
proof (cases e)
  case (Acquire c)
  with assms show ?thesis
    by (auto simp: slots_ok_def acquire_def split: if_splits)
next
  case (Release c)
  with assms show ?thesis
    by (simp only: release_slots_ok)
next
  case (Completion c cfg env ps)
  with assms have "step (Release c) g = Some g'"
    by (simp only: step_Completion)
  then show ?thesis
    using assms(2) by (rule release_slots_ok)
qed

lemma step_fifo_ok:
  assumes "step e g = Some g'" and "fifo_ok g"
  shows "fifo_ok g'"
proof (cases e)
  case (Acquire c)
  with assms show ?thesis
    by (auto simp: fifo_ok_def acquire_def split: if_splits)
next
  case (Release c)
  with assms show ?thesis
    by (simp only: release_fifo_ok)
next
  case (Completion c cfg env ps)
  with assms have "step (Release c) g = Some g'"
    by (simp only: step_Completion)
  then show ?thesis
    using assms(2) by (rule release_fifo_ok)
qed

lemma run_slots_ok:
  "run es g = Some g' \<Longrightarrow> slots_ok g \<Longrightarrow> slots_ok g'"
  by (induction es arbitrary: g) (auto split: option.splits dest: step_slots_ok)

lemma run_fifo_ok:
  "run es g = Some g' \<Longrightarrow> fifo_ok g \<Longrightarrow> fifo_ok g'"
  by (induction es arbitrary: g) (auto split: option.splits dest: step_fifo_ok)

lemma run_maxConcurrent:
  "run es g = Some g' \<Longrightarrow> maxConcurrent (queue g') = maxConcurrent (queue g)"
  by (induction es arbitrary: g) (auto split: option.splits dest: step_maxConcurrent)

lemma new_admission_slots_ok: "slots_ok (new_admission llmQueue)"
  by (simp add: slots_ok_def new_admission_def llmQueue_def new_LLMQueue_def)

lemma new_admission_fifo_ok: "fifo_ok (new_admission llmQueue)"
  by (simp add: fifo_ok_def new_admission_def llmQueue_def new_LLMQueue_def)

text \<open>
  Three callers, two slots: the third waits until the first call leaves. That call
  throws (every provider answers 429), and its slot goes to the waiter all the same.
\<close>

lemma run_failing_call:
  "run [Acquire 1, Acquire 2, Acquire 3,
        Completion 1 six_keys (steady 0 all_rate_limited) (initial_providers six_keys)]
       (new_admission llmQueue)
     = Some \<lparr>queue = \<lparr>running = 2, waiting = [], maxConcurrent = 2\<rparr>,
             holding = [2, 3], enqueued = [3], resumed = [3]\<rparr>"
  by (simp add: new_admission_def llmQueue_def new_LLMQueue_def acquire_def release_def
        hand_over_def granted_releases)

text \<open>
  Claim C1. Take any interleaving of \<^verbatim>\<open>acquire()\<close> calls, \<^verbatim>\<open>release()\<close> calls and
  completions of \<^verbatim>\<open>generateCompletion\<close> on \<^verbatim>\<open>llmQueue\<close> in which only a caller that
  holds a slot releases. Then the callers that hold a slot (those admitted at once and
  the waiters that were handed a freed slot) are exactly as many as \<^verbatim>\<open>running\<close>
  counts, and never more than two. And \<^verbatim>\<open>generateCompletion\<close>, once it holds its slot,
  performs the one \<^verbatim>\<open>release()\<close> of its \<^verbatim>\<open>finally\<close> block whether its body returns a
  text or throws.
\<close>

theorem slots_never_exceed_limit:
  assumes "run es (new_admission llmQueue) = Some g"
  shows "int (length (holding g)) = running (queue g)
         \<and> length (holding g) \<le> 2
         \<and> snd (snd (generateCompletion_granted cfg env ps q)) = release q"
proof -
  have ok: "slots_ok g"
    using run_slots_ok [OF assms new_admission_slots_ok] .
  have "maxConcurrent (queue g) = 2"
    using run_maxConcurrent [OF assms] by (simp add: new_admission_def llmQueue_def new_LLMQueue_def)
  with ok show ?thesis
    by (simp add: slots_ok_def granted_releases)
qed

theorem slots_never_exceed_limit_witness:
  "run [Acquire 1, Acquire 2, Acquire 3,
        Completion 1 six_keys (steady 0 all_rate_limited) (initial_providers six_keys)]
       (new_admission llmQueue)
     = Some \<lparr>queue = \<lparr>running = 2, waiting = [], maxConcurrent = 2\<rparr>,
             holding = [2, 3], enqueued = [3], resumed = [3]\<rparr>
   \<and> length [2, 3 :: caller] \<le> 2
   \<and> snd (snd (generateCompletion_granted six_keys (steady 0 all_rate_limited)
                  (initial_providers six_keys) llmQueue)) = release llmQueue"
proof (intro conjI)
  show "run [Acquire 1, Acquire 2, Acquire 3,
        Completion 1 six_keys (steady 0 all_rate_limited) (initial_providers six_keys)]
       (new_admission llmQueue)
     = Some \<lparr>queue = \<lparr>running = 2, waiting = [], maxConcurrent = 2\<rparr>,
             holding = [2, 3], enqueued = [3], resumed = [3]\<rparr>"
    by (rule run_failing_call)
  show "length [2, 3 :: caller] \<le> 2"
    using slots_never_exceed_limit [OF run_failing_call] by simp
  show "snd (snd (generateCompletion_granted six_keys (steady 0 all_rate_limited)
                  (initial_providers six_keys) llmQueue)) = release llmQueue"
    using slots_never_exceed_limit [OF run_failing_call] by blast
qed

text \<open>
  Claim C6. \<^verbatim>\<open>release()\<close> with a non-empty wait list resolves the head of the list and
  leaves \<^verbatim>\<open>running\<close> as it is; with an empty wait list it decrements \<^verbatim>\<open>running\<close>. So
  in every interleaving the waiters resumed so far, in the order they were resumed,
  followed by those still waiting, are the callers that were put on the wait list, in
  the order of their \<^verbatim>\<open>acquire()\<close> calls: strict first-in first-out.
\<close>

theorem waiters_resume_in_fifo_order:
  assumes "run es (new_admission llmQueue) = Some g"
  shows "enqueued g = resumed g @ waiting (queue g)
         \<and> release (q\<lparr>waiting := w # ws\<rparr>) = (Some w, q\<lparr>waiting := ws\<rparr>)
         \<and> running (snd (release (q\<lparr>waiting := w # ws\<rparr>))) = running q
         \<and> release (q\<lparr>waiting := []\<rparr>) = (None, q\<lparr>waiting := [], running := running q - 1\<rparr>)"
proof -
  have "fifo_ok g"
    using run_fifo_ok [OF assms new_admission_fifo_ok] .
  then show ?thesis
    by (simp add: fifo_ok_def release_def)
qed

text \<open>Two slots and three waiters: the releases resolve waiter 3, then 4, then 5.\<close>

lemma run_three_waiters:
  "run [Acquire 1, Acquire 2, Acquire 3, Acquire 4, Acquire 5, Release 1, Release 2, Release 3]
       (new_admission llmQueue)
     = Some \<lparr>queue = \<lparr>running = 2, waiting = [], maxConcurrent = 2\<rparr>,
             holding = [4, 5], enqueued = [3, 4, 5], resumed = [3, 4, 5]\<rparr>"
  by (simp add: new_admission_def llmQueue_def new_LLMQueue_def acquire_def release_def hand_over_def)

theorem waiters_resume_in_fifo_order_witness:
  "run [Acquire 1, Acquire 2, Acquire 3, Acquire 4, Acquire 5, Release 1, Release 2, Release 3]
       (new_admission llmQueue)
     = Some \<lparr>queue = \<lparr>running = 2, waiting = [], maxConcurrent = 2\<rparr>,
             holding = [4, 5], enqueued = [3, 4, 5], resumed = [3, 4, 5]\<rparr>
   \<and> [3, 4, 5 :: caller] = [3, 4, 5] @ []
   \<and> release (llmQueue\<lparr>waiting := [3, 4, 5]\<rparr>) = (Some 3, llmQueue\<lparr>waiting := [4, 5]\<rparr>)"
proof (intro conjI)
  show "run [Acquire 1, Acquire 2, Acquire 3, Acquire 4, Acquire 5, Release 1, Release 2, Release 3]
       (new_admission llmQueue)
     = Some \<lparr>queue = \<lparr>running = 2, waiting = [], maxConcurrent = 2\<rparr>,
             holding = [4, 5], enqueued = [3, 4, 5], resumed = [3, 4, 5]\<rparr>"
    by (rule run_three_waiters)
  show "[3, 4, 5 :: caller] = [3, 4, 5] @ []"
    using waiters_resume_in_fifo_order [OF run_three_waiters] by simp
  show "release (llmQueue\<lparr>waiting := [3, 4, 5]\<rparr>) = (Some 3, llmQueue\<lparr>waiting := [4, 5]\<rparr>)"
    using waiters_resume_in_fifo_order [OF run_three_waiters] by blast
qed

section \<open>Verification: the provider fallback chain\<close>

lemma loop_skip:
  "cooling (clock env i) (table st key) \<Longrightarrow>
   provider_loop env i (key # rest) st = provider_loop env (Suc i) rest st"
  by (simp add: cooling_def Let_def)

lemma loop_soft:
  "\<not> cooling (clock env i) (table st key) \<Longrightarrow>
   respond env i key = Responded None \<or> respond env i key = Responded (Some []) \<Longrightarrow>
   provider_loop env i (key # rest) st =
     provider_loop env (Suc i) rest (begin_attempt env i key st)"
  by (auto simp: cooling_def Let_def begin_attempt_def)

lemma loop_return:
  "\<not> cooling (clock env i) (table st key) \<Longrightarrow>
   respond env i key = Responded (Some t) \<Longrightarrow> t \<noteq> [] \<Longrightarrow>
   provider_loop env i (key # rest) st = (Some t, begin_attempt env i key st)"
  by (auto simp: cooling_def Let_def begin_attempt_def)

lemma loop_threw:
  "\<not> cooling (clock env i) (table st key) \<Longrightarrow>
   respond env i key = Threw err \<Longrightarrow>
   provider_loop env i (key # rest) st =
     provider_loop env (Suc i) rest
       ((begin_attempt env i key st)
          \<lparr>table := on_error key (clock_fail env i) err (table (begin_attempt env i key st)),
           lastError := Some err\<rparr>)"
  by (auto simp: cooling_def Let_def begin_attempt_def)

lemmas provider_loop_Cons = provider_loop.simps(2)

declare provider_loop.simps(2) [simp del]

lemma loop_cases:
  obtains (skipped) "cooling (clock env i) (table st key)"
  | (soft) "\<not> cooling (clock env i) (table st key)"
      and "respond env i key = Responded None \<or> respond env i key = Responded (Some [])"
  | (returned) t where "\<not> cooling (clock env i) (table st key)"
      and "respond env i key = Responded (Some t)" and "t \<noteq> []"
  | (thrown) err where "\<not> cooling (clock env i) (table st key)"
      and "respond env i key = Threw err"
proof (cases "cooling (clock env i) (table st key)")
  case True
  then show ?thesis by (rule skipped)
next
  case False
  show ?thesis
  proof (cases "respond env i key")
    case (Responded content_opt)
    show ?thesis
    proof (cases content_opt)
      case None
      with False Responded show ?thesis by (intro soft) auto
    next
      case (Some t)
      with False Responded show ?thesis
        by (cases "t = []") (auto intro: soft returned)
    qed
  next
    case (Threw err)
    with False show ?thesis by (intro thrown)
  qed
qed

lemma subseq_distinct:
  "subseq xs ys \<Longrightarrow> distinct ys \<Longrightarrow> distinct xs"
proof (induction rule: list_emb.induct)
  case (list_emb_Nil ys)
  then show ?case by simp
next
  case (list_emb_Cons xs ys y)
  then show ?case by simp
next
  case (list_emb_Cons2 x y xs ys)
  then show ?case by (auto dest: list_emb_set)
qed

lemma provider_loop_attempted:
  "provider_loop env i ks st = (r, st') \<Longrightarrow>
   \<exists>xs. attempted st' = attempted st @ xs \<and> subseq xs ks"
proof (induction ks arbitrary: i st)
  case Nil
  then show ?case by simp
next
  case (Cons key rest)
  show ?case
  proof (cases rule: loop_cases [of env i st key])
    case skipped
    with Cons.prems have "provider_loop env (Suc i) rest st = (r, st')"
      by (simp add: loop_skip)
    from Cons.IH [OF this] show ?thesis by auto
  next
    case soft
    with Cons.prems
    have "provider_loop env (Suc i) rest (begin_attempt env i key st) = (r, st')"
      by (simp add: loop_soft)
    from Cons.IH [OF this] show ?thesis by (auto simp: begin_attempt_def)
  next
    case (returned t)
    with Cons.prems have "st' = begin_attempt env i key st"
      by (simp add: loop_return)
    then show ?thesis by (auto simp: begin_attempt_def)
  next
    case (thrown err)
    with Cons.prems
    have "provider_loop env (Suc i) rest
            ((begin_attempt env i key st)
               \<lparr>table := on_error key (clock_fail env i) err (table (begin_attempt env i key st)),
                lastError := Some err\<rparr>) = (r, st')"
      by (simp add: loop_threw)
    from Cons.IH [OF this] show ?thesis by (auto simp: begin_attempt_def)
  qed
qed

lemma provider_loop_exhausted:
  "(\<And>j. j < length ks \<Longrightarrow> \<not> usable (respond env (i + j) (ks ! j))) \<Longrightarrow>
   fst (provider_loop env i ks st) = None"
proof (induction ks arbitrary: i st)
  case Nil
  then show ?case by simp
next
  case (Cons key rest)
  have head: "\<not> usable (respond env i key)"
    using Cons.prems [of 0] by simp
  have tail: "\<And>j. j < length rest \<Longrightarrow> \<not> usable (respond env (Suc i + j) (rest ! j))"
    using Cons.prems [of "Suc _"] by simp
  show ?case
  proof (cases rule: loop_cases [of env i st key])
    case skipped
    then show ?thesis using Cons.IH [OF tail] by (simp add: loop_skip)
  next
    case soft
    then show ?thesis using Cons.IH [OF tail] by (simp add: loop_soft)
  next
    case (returned t)
    with head show ?thesis by simp
  next
    case (thrown err)
    then show ?thesis using Cons.IH [OF tail] by (simp add: loop_threw)
  qed
qed

lemma provider_loop_nonempty:
  "fst (provider_loop env i ks st) \<noteq> Some []"
proof (induction ks arbitrary: i st)
  case Nil
  then show ?case by simp
next
  case (Cons key rest)
  show ?case
    by (cases rule: loop_cases [of env i st key])
       (simp_all add: loop_skip loop_soft loop_return loop_threw Cons.IH)
qed

lemma distinct_PROVIDER_PRIORITY: "distinct (PROVIDER_PRIORITY cfg)"
  by (simp add: PROVIDER_PRIORITY_def)

lemmas eval_defs =
  generateCompletion_try_def PROVIDER_PRIORITY_def initial_providers_def buildProvider_def
  six_keys_def steady_def provider_loop_Cons on_error_def error_status_def http_error_def
  empty_ApiError_def markRateLimited_def RATE_LIMIT_COOLDOWN_MS_def failure_message_def
  all_rate_limited_def all_answer_def all_cooling_def Let_def

text \<open>
  Claim C2. In every call of \<^verbatim>\<open>generateCompletion\<close> the providers attempted are a
  subsequence of \<^verbatim>\<open>PROVIDER_PRIORITY\<close>, so they come in priority order and none comes
  twice. If no provider of the list would give a non-empty completion in this call, the
  call ends with the one \<^verbatim>\<open>LLMError('all', ...)\<close> thrown after the loop.
\<close>

theorem each_provider_at_most_once:
  "distinct (attempted (snd (generateCompletion_try cfg env ps)))
   \<and> subseq (attempted (snd (generateCompletion_try cfg env ps))) (PROVIDER_PRIORITY cfg)
   \<and> ((\<forall>i < length (PROVIDER_PRIORITY cfg).
          \<not> usable (respond env i (PROVIDER_PRIORITY cfg ! i)))
        \<longrightarrow> (\<exists>msg. fst (generateCompletion_try cfg env ps) = Inl (LLMError ''all'' msg)))"
proof -
  let ?st0 = "\<lparr>table = ps, attempted = [], lastError = None\<rparr>"
  obtain r st where loop: "provider_loop env 0 (PROVIDER_PRIORITY cfg) ?st0 = (r, st)"
    by (cases "provider_loop env 0 (PROVIDER_PRIORITY cfg) ?st0")
  then have snd_eq: "snd (generateCompletion_try cfg env ps) = st"
    by (simp add: generateCompletion_try_def split: option.splits)
  from provider_loop_attempted [OF loop]
  have sub: "subseq (attempted st) (PROVIDER_PRIORITY cfg)" by auto
  then have dist: "distinct (attempted st)"
    by (rule subseq_distinct) (rule distinct_PROVIDER_PRIORITY)
  have "\<exists>msg. fst (generateCompletion_try cfg env ps) = Inl (LLMError ''all'' msg)"
    if "\<forall>i < length (PROVIDER_PRIORITY cfg).
          \<not> usable (respond env i (PROVIDER_PRIORITY cfg ! i))"
  proof -
    have "fst (provider_loop env 0 (PROVIDER_PRIORITY cfg) ?st0) = None"
      by (rule provider_loop_exhausted) (use that in simp)
    with loop have "r = None" by simp
    with loop show ?thesis
      by (simp add: generateCompletion_try_def)
  qed
  with sub dist snd_eq show ?thesis by simp
qed

theorem each_provider_at_most_once_witness:
  "list_all (\<lambda>key. \<not> usable (all_rate_limited key)) (PROVIDER_PRIORITY six_keys)
   \<and> fst (generateCompletion_try six_keys (steady 0 all_rate_limited) (initial_providers six_keys))
       = Inl (LLMError ''all'' ''failed'')
   \<and> attempted (snd (generateCompletion_try six_keys (steady 0 all_rate_limited)
                        (initial_providers six_keys)))
       = [gemini1, gemini2, gemini3, gemini4, gemini5, gemini6]
   \<and> distinct [gemini1, gemini2, gemini3, gemini4, gemini5, gemini6]"
proof -
  have att: "attempted (snd (generateCompletion_try six_keys (steady 0 all_rate_limited)
                        (initial_providers six_keys)))
       = [gemini1, gemini2, gemini3, gemini4, gemini5, gemini6]"
    by (simp add: eval_defs)
  have res: "fst (generateCompletion_try six_keys (steady 0 all_rate_limited)
                   (initial_providers six_keys)) = Inl (LLMError ''all'' ''failed'')"
    by (simp add: eval_defs)
  have hyp: "list_all (\<lambda>key. \<not> usable (all_rate_limited key)) (PROVIDER_PRIORITY six_keys)"
    by (simp add: eval_defs)
  show ?thesis
    using each_provider_at_most_once [of six_keys "steady 0 all_rate_limited"
            "initial_providers six_keys"] att res hyp
    by simp
qed

text \<open>
  Claim C3, evaluated on the code. Six providers are configured. In a first call the
  first provider answers 404: its \<^verbatim>\<open>isActive\<close> flag is cleared. In a second call, one
  second later, the loop still runs over the constant \<^verbatim>\<open>PROVIDER_PRIORITY\<close> and never
  reads the flag: the first provider is attempted again, and answers.
\<close>

theorem disabled_provider_attempted_again:
  "\<not> isActive (table (snd (generateCompletion_try six_keys (steady 0 first_not_found)
                               (initial_providers six_keys))) gemini1)
   \<and> attempted (snd (generateCompletion_try six_keys (steady 0 first_not_found)
                        (initial_providers six_keys))) = [gemini1, gemini2]
   \<and> attempted (snd (generateCompletion_try six_keys (steady 1000 all_answer)
                        (table (snd (generateCompletion_try six_keys (steady 0 first_not_found)
                                       (initial_providers six_keys)))))) = [gemini1]
   \<and> fst (generateCompletion_try six_keys (steady 1000 all_answer)
             (table (snd (generateCompletion_try six_keys (steady 0 first_not_found)
                            (initial_providers six_keys))))) = Inr ''an answer''"
  by (simp add: eval_defs)

text \<open>
  Claim C4, evaluated on the code. Every provider is cooling at time 1000, the second
  one's cooldown ending first. \<^verbatim>\<open>generateCompletion\<close> skips them all, attempts none
  and throws; \<^verbatim>\<open>getActiveProvider\<close>, which would pick the second provider, is not
  called by it.
\<close>

theorem all_cooling_none_attempted:
  "list_all (\<lambda>key. cooling 1000 (all_cooling key)) (PROVIDER_PRIORITY six_keys)
   \<and> generateCompletion_try six_keys (steady 1000 all_answer) all_cooling
       = (Inl (LLMError ''all'' ''All LLM providers failed''),
          \<lparr>table = all_cooling, attempted = [], lastError = None\<rparr>)
   \<and> getActiveProvider six_keys 1000 all_cooling = Inr (gemini2, all_cooling)"
  by (simp add: eval_defs cooling_def getActiveProvider_def soonest_def)

text \<open>
  Claim C9 as stated fails for a blank completion: the first provider answers with
  three spaces, and that text is returned; no second provider is attempted.
\<close>

theorem blank_completion_is_returned:
  "blank ''   ''
   \<and> fst (generateCompletion_try six_keys (steady 0 first_blank) (initial_providers six_keys))
       = Inr ''   ''
   \<and> attempted (snd (generateCompletion_try six_keys (steady 0 first_blank)
                        (initial_providers six_keys))) = [gemini1]"
  by (simp add: eval_defs blank_def is_space_def)

text \<open>
  Claim C9, amended. A completion that is absent (\<^verbatim>\<open>null\<close> or \<^verbatim>\<open>undefined\<close>) or the
  empty string is a soft failure: it is never the result of \<^verbatim>\<open>generateCompletion\<close>, the
  provider enters no cooldown and is not disabled, and the loop goes on with the
  providers that follow in priority order. Every other completion, a text of white space
  included, is returned as it is.
\<close>

theorem empty_completion_is_soft_failure:
  "fst (generateCompletion_try cfg env ps) \<noteq> Inr []
   \<and> (\<not> cooling (clock env i) (table st key)
        \<and> (respond env i key = Responded None \<or> respond env i key = Responded (Some []))
      \<longrightarrow> provider_loop env i (key # rest) st
            = provider_loop env (Suc i) rest (begin_attempt env i key st))
   \<and> (\<not> cooling (clock env i) (table st key)
        \<and> respond env i key = Responded (Some t) \<and> t \<noteq> []
      \<longrightarrow> provider_loop env i (key # rest) st = (Some t, begin_attempt env i key st))"
proof -
  have "fst (generateCompletion_try cfg env ps) \<noteq> Inr []"
    using provider_loop_nonempty
            [of env 0 "PROVIDER_PRIORITY cfg" "\<lparr>table = ps, attempted = [], lastError = None\<rparr>"]
    by (auto simp: generateCompletion_try_def split: prod.splits option.splits)
  then show ?thesis
    by (simp add: loop_soft loop_return)
qed

theorem empty_completion_is_soft_failure_witness:
  "\<not> cooling 0 (initial_providers six_keys gemini1)
   \<and> respond (steady 0 first_empty) 0 gemini1 = Responded (Some [])
   \<and> provider_loop (steady 0 first_empty) 0 [gemini1, gemini2]
        \<lparr>table = initial_providers six_keys, attempted = [], lastError = None\<rparr>
      = provider_loop (steady 0 first_empty) (Suc 0) [gemini2]
          (begin_attempt (steady 0 first_empty) 0 gemini1
             \<lparr>table = initial_providers six_keys, attempted = [], lastError = None\<rparr>)
   \<and> fst (generateCompletion_try six_keys (steady 0 first_empty) (initial_providers six_keys))
       = Inr ''an answer''
   \<and> attempted (snd (generateCompletion_try six_keys (steady 0 first_empty)
                        (initial_providers six_keys))) = [gemini1, gemini2]"
proof -
  have pre: "\<not> cooling 0 (initial_providers six_keys gemini1)
             \<and> respond (steady 0 first_empty) 0 gemini1 = Responded (Some [])"
    by (simp add: cooling_def eval_defs)
  have res: "fst (generateCompletion_try six_keys (steady 0 first_empty) (initial_providers six_keys))
               = Inr ''an answer''
             \<and> attempted (snd (generateCompletion_try six_keys (steady 0 first_empty)
                                  (initial_providers six_keys))) = [gemini1, gemini2]"
    by (simp add: eval_defs)
  show ?thesis
    using empty_completion_is_soft_failure
            [of six_keys "steady 0 first_empty" "initial_providers six_keys" 0
                "\<lparr>table = initial_providers six_keys, attempted = [], lastError = None\<rparr>"
                gemini1 "[gemini2]"]
          pre res
    by (simp add: steady_def)
qed

section \<open>Verification: the response cache\<close>

lemma map_set_new:
  "key \<notin> fst ` set c \<Longrightarrow> map_set key e c = c @ [(key, e)]"
  by (induction c) auto

lemma length_map_set:
  "length (map_set key e c) = (if key \<in> fst ` set c then length c else Suc (length c))"
  by (induction c) auto

lemma set_keys_map_set:
  "fst ` set (map_set key e c) = insert key (fst ` set c)"
  by (induction c) auto

lemma distinct_map_set:
  "distinct (map fst c) \<Longrightarrow> distinct (map fst (map_set key e c))"
  by (induction c) (auto simp: set_keys_map_set)

lemma keys_map_delete:
  "map fst (map_delete key c) = filter (\<lambda>k. k \<noteq> key) (map fst c)"
  by (simp add: map_delete_def filter_map comp_def)

lemma map_delete_absent:
  "key \<notin> fst ` set c \<Longrightarrow> map_delete key c = c"
  by (induction c) (auto simp: map_delete_def)

lemma length_map_delete_mem:
  "distinct (map fst c) \<Longrightarrow> key \<in> fst ` set c \<Longrightarrow> Suc (length (map_delete key c)) = length c"
proof (induction c)
  case Nil
  then show ?case by simp
next
  case (Cons kv rest)
  show ?case
  proof (cases "fst kv = key")
    case True
    with Cons.prems have "key \<notin> fst ` set rest" by auto
    then have "map_delete key rest = rest" by (rule map_delete_absent)
    with True show ?thesis by (simp add: map_delete_def)
  next
    case False
    with Cons show ?thesis by (auto simp: map_delete_def)
  qed
qed

lemma length_map_delete_le: "length (map_delete key c) \<le> length c"
  by (simp add: map_delete_def)

lemma keys_set_map_delete: "fst ` set (map_delete key c) = fst ` set c - {key}"
  by (auto simp: map_delete_def)

lemma distinct_map_delete: "distinct (map fst c) \<Longrightarrow> distinct (map fst (map_delete key c))"
  by (simp add: keys_map_delete)

lemma cache_run_snoc:
  "cache_run (ops @ [x]) c = cache_step (cache_run ops c) x"
  by (simp add: cache_run_def)

lemma fill_ops_Suc:
  "fill_ops (Suc n) = fill_ops n @ [Put (replicate n (CHR ''k'')) ''v'' DEFAULT_TTL_MS 0]"
  by (simp add: fill_ops_def)

lemma replicate_notin:
  "replicate n (CHR ''k'') \<notin> (\<lambda>i. replicate i (CHR ''k'')) ` {0..<n}"
proof
  assume "replicate n (CHR ''k'') \<in> (\<lambda>i. replicate i (CHR ''k'')) ` {0..<n}"
  then obtain i where "i < n" "replicate n (CHR ''k'') = replicate i (CHR ''k'')" by auto
  then have "length (replicate n (CHR ''k'')) = length (replicate i (CHR ''k''))" by simp
  with \<open>i < n\<close> show False by simp
qed

text \<open>
  With the empty key written first, nothing is ever evicted: after \<open>n + 1\<close> writes under
  different keys the cache holds them all, in the order they were written.
\<close>

lemma fill_keys:
  "map fst (cache_run (fill_ops (Suc n)) []) = map (\<lambda>i. replicate i (CHR ''k'')) [0..<Suc n]"
proof (induction n)
  case 0
  show ?case
    by (simp add: fill_ops_def cache_run_def setCache_def MAX_ENTRIES_def)
next
  case (Suc n)
  let ?c = "cache_run (fill_ops (Suc n)) []"
  let ?key = "replicate (Suc n) (CHR ''k'')"
  have keys: "map fst ?c = map (\<lambda>i. replicate i (CHR ''k'')) [0..<Suc n]"
    by (rule Suc.IH)
  then obtain e rest where c: "?c = ([], e) # rest"
    by (cases ?c) (auto simp: upt_conv_Cons simp del: upt_Suc)
  have "set (map fst ?c) = (\<lambda>i. replicate i (CHR ''k'')) ` {0..<Suc n}"
    unfolding keys by (simp only: set_map set_upt)
  then have "?key \<notin> set (map fst ?c)"
    using replicate_notin [of "Suc n"] by (simp only: not_False_eq_True)
  then have fresh: "?key \<notin> fst ` set ?c"
    by simp
  have "setCache ?key ''v'' DEFAULT_TTL_MS 0 ?c
          = ?c @ [(?key, \<lparr>cached = ''v'', expiresAt = 0 + DEFAULT_TTL_MS\<rparr>)]"
    using fresh map_set_new [OF fresh] c by (simp add: setCache_def)
  then have "map fst (cache_run (fill_ops (Suc (Suc n))) []) = map fst ?c @ [?key]"
    by (simp add: fill_ops_Suc [of "Suc n"] cache_run_snoc)
  then show ?case unfolding keys by simp
qed

text \<open>
  Claim C5, evaluated on the code. 201 calls of \<^verbatim>\<open>setCache\<close> on the empty cache, the
  first under the empty key and the others under 200 different keys: whenever the cache
  is full the oldest key is the empty string, \<^verbatim>\<open>if (lruKey)\<close> fails, and nothing is
  evicted. The cache ends with 201 entries, one more than \<^verbatim>\<open>MAX_ENTRIES\<close>, and the
  least recently used entry is still in it.
\<close>

theorem cache_grows_past_capacity:
  "length (cache_run (fill_ops 201) []) = 201
   \<and> MAX_ENTRIES = 200
   \<and> map_get (cache_run (fill_ops 201) []) [] \<noteq> None"
proof -
  have keys: "map fst (cache_run (fill_ops (Suc 200)) [])
                = map (\<lambda>i. replicate i (CHR ''k'')) [0..<Suc 200]"
    by (rule fill_keys)
  then have "length (map fst (cache_run (fill_ops (Suc 200)) [])) = 201"
    by simp
  then have len: "length (cache_run (fill_ops 201) []) = 201"
    by simp
  have "[] \<in> set (map (\<lambda>i. replicate i (CHR ''k'')) [0..<Suc 200])"
    by (simp only: set_map set_upt) (rule image_eqI [of _ _ 0], simp_all)
  then have "[] \<in> set (map fst (cache_run (fill_ops (Suc 200)) []))"
    by (simp only: keys)
  then have "map_of (cache_run (fill_ops (Suc 200)) []) [] \<noteq> None"
    by (simp add: map_of_eq_None_iff)
  with len show ?thesis
    by (simp add: MAX_ENTRIES_def map_get_def)
qed

text \<open>
  What does hold. As long as no key is the empty string, the cache keeps distinct keys
  and at most \<^verbatim>\<open>MAX_ENTRIES\<close> entries through every operation; and an entry that
  \<^verbatim>\<open>getCached\<close> has just returned survives the next \<^verbatim>\<open>setCache\<close>, whatever the keys.
\<close>

lemma setCache_ok:
  assumes "cache_ok c" and "key \<noteq> []"
  shows "cache_ok (setCache key v ttlMs now c)"
proof (cases "length c \<ge> MAX_ENTRIES")
  case False
  with assms show ?thesis
    by (auto simp: cache_ok_def setCache_def length_map_set set_keys_map_set distinct_map_set)
next
  case True
  then obtain lruKey e rest where c: "c = (lruKey, e) # rest"
    by (cases c) (auto simp: MAX_ENTRIES_def)
  with assms have ne: "lruKey \<noteq> []" by (auto simp: cache_ok_def)
  have len: "Suc (length (map_delete lruKey c)) = length c"
    using assms c by (intro length_map_delete_mem) (auto simp: cache_ok_def)
  have eq: "setCache key v ttlMs now c
              = map_set key \<lparr>cached = v, expiresAt = now + ttlMs\<rparr> (map_delete lruKey c)"
    using True c ne by (simp add: setCache_def)
  show ?thesis
    unfolding eq cache_ok_def
    using assms len
    by (auto simp: cache_ok_def length_map_set set_keys_map_set distinct_map_set
                   distinct_map_delete keys_set_map_delete)
qed

lemma getCached_ok:
  assumes "cache_ok c"
  shows "cache_ok (snd (getCached key now c))"
proof (cases "map_get c key")
  case None
  with assms show ?thesis by (simp add: getCached_def)
next
  case (Some entry)
  then have mem: "key \<in> fst ` set c"
    by (auto simp: map_get_def dest!: map_of_SomeD intro: rev_image_eqI)
  have len: "Suc (length (map_delete key c)) = length c"
    using assms mem by (intro length_map_delete_mem) (auto simp: cache_ok_def)
  have del: "cache_ok (map_delete key c)"
    using assms length_map_delete_le [of key c]
    by (auto simp: cache_ok_def distinct_map_delete keys_set_map_delete)
  have "cache_ok (map_set key entry (map_delete key c))"
    unfolding cache_ok_def
  proof (intro conjI)
    show "distinct (map fst (map_set key entry (map_delete key c)))"
      using del by (simp add: cache_ok_def distinct_map_set)
    show "length (map_set key entry (map_delete key c)) \<le> MAX_ENTRIES"
      using assms len by (simp add: cache_ok_def length_map_set keys_set_map_delete)
    show "[] \<notin> fst ` set (map_set key entry (map_delete key c))"
      using assms mem unfolding set_keys_map_set keys_set_map_delete cache_ok_def
      by blast
  qed
  with del Some show ?thesis
    by (simp add: getCached_def)
qed

lemma cache_run_bounded:
  assumes "cache_ok c" and "list_all (\<lambda>x. op_key x \<noteq> []) ops"
  shows "cache_ok (cache_run ops c)"
  using assms
proof (induction ops arbitrary: c)
  case Nil
  then show ?case by (simp add: cache_run_def)
next
  case (Cons x ops)
  have "cache_ok (cache_step c x)"
    using Cons.prems by (cases x) (simp_all add: getCached_ok setCache_ok)
  with Cons show ?case
    by (simp add: cache_run_def)
qed

lemma getCached_protects_entry:
  assumes "fst (getCached key now c) = Some v"
  shows "key \<in> fst ` set (setCache key' v' ttlMs now' (snd (getCached key now c)))"
proof -
  from assms obtain entry where
    after: "snd (getCached key now c) = map_set key entry (map_delete key c)"
    by (auto simp: getCached_def split: option.splits if_splits)
  have absent: "key \<notin> fst ` set (map_delete key c)"
    by (simp add: keys_set_map_delete)
  then have shape: "snd (getCached key now c) = map_delete key c @ [(key, entry)]"
    using after by (simp add: map_set_new)
  show ?thesis
  proof (cases "map_delete key c")
    case Nil
    with shape show ?thesis
      by (simp add: setCache_def MAX_ENTRIES_def set_keys_map_set)
  next
    case (Cons kv rest)
    with absent have "fst kv \<noteq> key" by auto
    with shape Cons show ?thesis
      by (cases kv)
         (auto simp: setCache_def set_keys_map_set keys_set_map_delete Let_def)
  qed
qed

section \<open>Verification: embeddings\<close>

text \<open>
  Claim C10 as stated fails when the API answers ok with a list of another length: for
  one text and an empty list of embeddings, no vector is returned.
\<close>

theorem embeddings_not_one_per_text:
  "generateEmbeddings plain_js six_keys (Embeddings []) [''a''] = Inr []
   \<and> length ([] :: vec list) \<noteq> length [''a'']"
  by (simp add: generateEmbeddings_def generateEmbeddings_try_def six_keys_def)

text \<open>
  Claim C10, amended. \<^verbatim>\<open>generateEmbeddings\<close> never propagates an error. When no API key
  is configured, or the API call fails (the request is rejected, the status is not ok,
  the body cannot be read), it returns the hash embedding of every text, one vector per
  text. When the call succeeds it returns the vectors of the response as they are: one
  per text exactly when the response holds one embedding per text.
\<close>

theorem generateEmbeddings_total:
  "generateEmbeddings js cfg api texts =
     Inr (case api of
            Embeddings vs \<Rightarrow>
              if \<not> (embeddingApiKey cfg = [] \<and> apiKey (gemini cfg gemini1) = [])
              then vs else map (simpleHashEmbedding js) texts
          | _ \<Rightarrow> map (simpleHashEmbedding js) texts)
   \<and> length (map (simpleHashEmbedding js) texts) = length texts"
  by (simp add: generateEmbeddings_def generateEmbeddings_try_def Let_def
           split: fetch_outcome.splits)

section \<open>Verification: the output parser\<close>

lemma parseJSON_first_recovery:
  "parseJSON js raw =
     Inr (case caught (attempt1 js (clean js raw)) of
            Some v \<Rightarrow> v
          | None \<Rightarrow>
         (case caught (attempt2 js (clean js raw)) of
            Some v \<Rightarrow> v
          | None \<Rightarrow>
         (case caught (attempt3 js (clean js raw)) of
            Some v \<Rightarrow> v
          | None \<Rightarrow>
         (case caught (attempt4 js (clean js raw)) of
            Some v \<Rightarrow> v
          | None \<Rightarrow>
              JObj [(''answer'', JStr (sanitize_text js ''answer'' (clean js raw))),
                    (''suggestedFollowups'', JArr []),
                    (''keyTakeaways'', JArr [])]))))"
  by (simp add: parseJSON_def recovered_def answer_object_def and_then_def Let_def
           split: option.splits)














section \<open>Verification: JavaScript numbers\<close>

lemma floor_log2:
  assumes "2 powr of_int e \<le> \<bar>x\<bar>" and "\<bar>x\<bar> < 2 powr of_int (e + 1)"
  shows "\<lfloor>log 2 \<bar>x\<bar>\<rfloor> = e"
proof -
  have pos: "0 < \<bar>x\<bar>"
    using assms(1) by (smt (verit) powr_gt_zero)
  show ?thesis
    using assms pos by (simp add: floor_log_eq_powr_iff)
qed

text \<open>
  The double nearest to \<open>x\<close>, for an \<open>x\<close> whose binary exponent \<open>e\<close> is known: \<open>x\<close>
  is rounded to a multiple of \<open>2 powr (e - 52)\<close>.
\<close>

lemma to_number_at:
  assumes "2 powr of_int e \<le> \<bar>x\<bar>" and "\<bar>x\<bar> < 2 powr of_int (e + 1)" and "- 1022 \<le> e"
    and "of_int (round_half_even (x / 2 powr of_int (e - 52))) * 2 powr of_int (e - 52) = y"
    and "\<bar>y\<bar> < 2 ^ 1024"
  shows "to_number x = Finite y"
proof -
  have "x \<noteq> 0"
    using assms(1) by (smt (verit) powr_gt_zero)
  moreover have "exponent x = e"
    using floor_log2 [OF assms(1,2)] assms(3) by (simp add: exponent_def)
  ultimately have "round_double x = y"
    using assms(4) by (simp add: round_double_def ulp_def)
  with assms(5) show ?thesis
    by (auto simp: to_number_def Let_def)
qed

text \<open>The literals of the pipeline.\<close>

lemma literal_3_10: "literal (3/10) = Finite (5404319552844595 / 2 ^ 54)"
  unfolding literal_def
  by (rule to_number_at [where e = "- 2"])
     (simp_all add: powr_neg_numeral round_half_even_def Let_def)

lemma literal_5_100: "literal (5/100) = Finite (3602879701896397 / 2 ^ 56)"
  unfolding literal_def
  by (rule to_number_at [where e = "- 5"])
     (simp_all add: powr_neg_numeral round_half_even_def Let_def)

lemma literal_8_10: "literal (8/10) = Finite (3602879701896397 / 2 ^ 52)"
  unfolding literal_def
  by (rule to_number_at [where e = "- 1"])
     (simp_all add: powr_neg_numeral round_half_even_def Let_def)

lemma literal_5_10: "literal (5/10) = Finite (1/2)"
  unfolding literal_def
  by (rule to_number_at [where e = "- 1"])
     (simp_all add: powr_neg_numeral round_half_even_def Let_def)

lemma literal_6_10: "literal (6/10) = Finite (5404319552844595 / 2 ^ 53)"
  unfolding literal_def
  by (rule to_number_at [where e = "- 1"])
     (simp_all add: powr_neg_numeral round_half_even_def Let_def)

lemma literal_1_10: "literal (1/10) = Finite (3602879701896397 / 2 ^ 55)"
  unfolding literal_def
  by (rule to_number_at [where e = "- 4"])
     (simp_all add: powr_neg_numeral round_half_even_def Let_def)

lemma literal_1: "literal 1 = Finite 1"
  unfolding literal_def
  by (rule to_number_at [where e = 0])
     (simp_all add: powr_neg_numeral round_half_even_def Let_def)

lemma literal_25_100: "literal (25/100) = Finite (1/4)"
  unfolding literal_def
  by (rule to_number_at [where e = "- 2"])
     (simp_all add: powr_neg_numeral round_half_even_def Let_def)

text \<open>
  \<^verbatim>\<open>1 - 0.8 + 0.05 + 0.05\<close> is \<^verbatim>\<open>0.29999999999999993\<close>: the subtraction is exact on the
  double of \<^verbatim>\<open>0.8\<close>, the first addition is a tie that goes to the even neighbour, and
  the second one rounds down.
\<close>

lemma threshold_similarity:
  "num_add (num_add (num_sub (Finite 1) (literal (8/10))) (literal (5/100))) (literal (5/100))
     = Finite (2702159776422297 / 2 ^ 53)"
proof -
  have s0: "to_number (1 + - (3602879701896397 / 2 ^ 52)) = Finite (900719925474099 / 2 ^ 52)"
    by (rule to_number_at [where e = "- 3"])
       (simp_all add: powr_neg_numeral round_half_even_def Let_def)
  have s1: "to_number (900719925474099 / 2 ^ 52 + 3602879701896397 / 2 ^ 56)
              = Finite (4503599627370495 / 2 ^ 54)"
    by (rule to_number_at [where e = "- 3"])
       (simp_all add: powr_neg_numeral round_half_even_def Let_def)
  have s2: "to_number (4503599627370495 / 2 ^ 54 + 3602879701896397 / 2 ^ 56)
              = Finite (2702159776422297 / 2 ^ 53)"
    by (rule to_number_at [where e = "- 2"])
       (simp_all add: powr_neg_numeral round_half_even_def Let_def)
  show ?thesis
    unfolding literal_8_10 literal_5_100 num_sub_def num_neg.simps num_add.simps s0 s1 s2
    by (rule refl)
qed

text \<open>\<^verbatim>\<open>1 - 0.5 + 0.05 + 0.05\<close> is \<^verbatim>\<open>0.6000000000000001\<close>.\<close>

lemma near_similarity:
  "num_add (num_add (num_sub (Finite 1) (literal (5/10))) (literal (5/100))) (literal (5/100))
     = Finite (1351079888211149 / 2 ^ 51)"
proof -
  have s0: "to_number (1 + - (1/2)) = Finite (1/2)"
    by (rule to_number_at [where e = "- 1"])
       (simp_all add: powr_neg_numeral round_half_even_def Let_def)
  have s1: "to_number (1/2 + 3602879701896397 / 2 ^ 56) = Finite (2476979795053773 / 2 ^ 52)"
    by (rule to_number_at [where e = "- 1"])
       (simp_all add: powr_neg_numeral round_half_even_def Let_def)
  have s2: "to_number (2476979795053773 / 2 ^ 52 + 3602879701896397 / 2 ^ 56)
              = Finite (1351079888211149 / 2 ^ 51)"
    by (rule to_number_at [where e = "- 1"])
       (simp_all add: powr_neg_numeral round_half_even_def Let_def)
  show ?thesis
    unfolding literal_5_10 literal_5_100 num_sub_def num_neg.simps num_add.simps s0 s1 s2
    by (rule refl)
qed

text \<open>\<^verbatim>\<open>1 - 0.25 + 0.05 + 0.05\<close> is \<^verbatim>\<open>0.8500000000000001\<close>.\<close>

lemma close_similarity:
  "num_add (num_add (num_sub (Finite 1) (literal (25/100))) (literal (5/100))) (literal (5/100))
     = Finite (1914029841632461 / 2 ^ 51)"
proof -
  have s0: "to_number (1 + - (1/4)) = Finite (3/4)"
    by (rule to_number_at [where e = "- 1"])
       (simp_all add: powr_neg_numeral round_half_even_def Let_def)
  have s1: "to_number (3/4 + 3602879701896397 / 2 ^ 56) = Finite (3602879701896397 / 2 ^ 52)"
    by (rule to_number_at [where e = "- 1"])
       (simp_all add: powr_neg_numeral round_half_even_def Let_def)
  have s2: "to_number (3602879701896397 / 2 ^ 52 + 3602879701896397 / 2 ^ 56)
              = Finite (1914029841632461 / 2 ^ 51)"
    by (rule to_number_at [where e = "- 1"])
       (simp_all add: powr_neg_numeral round_half_even_def Let_def)
  show ?thesis
    unfolding literal_25_100 literal_5_100 num_sub_def num_neg.simps num_add.simps s0 s1 s2
    by (rule refl)
qed

text \<open>The average of two similarities, and the place of a chunk in the sort.\<close>

lemma avgSimilarity_two:
  assumes "similarity a = Finite x" and "similarity b = Finite y"
    and "to_number x = Finite x" and "to_number (x + y) = Finite t"
    and "to_number (t / 2) = Finite u"
  shows "avgSimilarity [a, b] = Finite u"
  using assms by (simp add: avgSimilarity_def)

lemma insert_chunk_behind:
  assumes "similarity a = Finite x" and "similarity b = Finite y"
    and "to_number (y + - x) = Finite d" and "0 < d"
  shows "insert_chunk a (b # rest) = b # insert_chunk a rest"
  using assms by (simp add: compare_chunks_def num_sub_def num_lt_def)

text \<open>
  The confidence of an answer grounded on chunks of the similarities
  \<^verbatim>\<open>0.8500000000000001\<close> and \<^verbatim>\<open>0.6000000000000001\<close>:
  \<^verbatim>\<open>Math.min((0 + 0.8500000000000001 + 0.6000000000000001) / 2 + 0.1, 1.0)\<close> is
  \<^verbatim>\<open>0.8250000000000001\<close>.
\<close>

lemma grounded_confidence:
  "num_min (num_add (avgSimilarity [chunk3, chunk2]) (literal (1/10))) (literal 1)
     = Finite (7430939385161319 / 2 ^ 53)"
proof -
  have s0: "to_number (1914029841632461 / 2 ^ 51) = Finite (1914029841632461 / 2 ^ 51)"
    by (rule to_number_at [where e = "- 1"])
       (simp_all add: powr_neg_numeral round_half_even_def Let_def)
  have s1: "to_number (1914029841632461 / 2 ^ 51 + 1351079888211149 / 2 ^ 51)
              = Finite (1632554864921805 / 2 ^ 50)"
    by (rule to_number_at [where e = 0])
       (simp_all add: powr_neg_numeral round_half_even_def Let_def)
  have s2: "to_number (1632554864921805 / 2 ^ 50 / 2) = Finite (1632554864921805 / 2 ^ 51)"
    by (rule to_number_at [where e = "- 1"])
       (simp_all add: powr_neg_numeral round_half_even_def Let_def)
  have avg: "avgSimilarity [chunk3, chunk2] = Finite (1632554864921805 / 2 ^ 51)"
    by (rule avgSimilarity_two [OF _ _ s0 s1 s2]) (simp_all add: chunk3_def chunk2_def)
  have s3: "to_number (1632554864921805 / 2 ^ 51 + 3602879701896397 / 2 ^ 55)
              = Finite (7430939385161319 / 2 ^ 53)"
    by (rule to_number_at [where e = "- 1"])
       (simp_all add: powr_neg_numeral round_half_even_def Let_def)
  have "num_add (avgSimilarity [chunk3, chunk2]) (literal (1/10))
          = Finite (7430939385161319 / 2 ^ 53)"
    unfolding avg literal_1_10 num_add.simps s3 by (rule refl)
  then show ?thesis
    unfolding literal_1 by (simp add: num_min_def)
qed

text \<open>\<^verbatim>\<open>0.5 < 0.6\<close>, as doubles.\<close>

lemma llm_only_below_high: "num_lt (Finite (1/2)) CONFIDENCE_HIGH"
  unfolding CONFIDENCE_HIGH_def literal_6_10 by (simp add: num_lt_def)

text \<open>The filter compares with the double of \<^verbatim>\<open>0.3\<close>, which is a little below 3/10.\<close>

lemma relevant_threshold:
  "relevant c = num_ge (similarity c) (Finite (5404319552844595 / 2 ^ 54))"
  unfolding relevant_def literal_3_10 by (rule refl)

section \<open>Verification: the retrieval pipeline\<close>

lemma set_insert_chunk: "set (insert_chunk a chunks) = insert a (set chunks)"
  by (induction chunks) auto

lemma set_sort_chunks: "set (sort_chunks chunks) = set chunks"
  by (induction chunks) (simp_all add: sort_chunks_def set_insert_chunk)

lemma relevantChunks_kept:
  "list_all (\<lambda>c. c \<in> set scored \<and> relevant c) (relevantChunks n scored)"
proof -
  have "set (relevantChunks n scored) \<subseteq> set (sort_chunks (filter relevant scored))"
    unfolding relevantChunks_def by (rule set_take_subset)
  then have "set (relevantChunks n scored) \<subseteq> set (filter relevant scored)"
    by (simp add: set_sort_chunks)
  then show ?thesis
    by (auto simp: list_all_iff)
qed

lemma relevantChunks_none:
  "list_all (\<lambda>c. \<not> relevant c) scored \<Longrightarrow> relevantChunks n scored = []"
  by (simp add: relevantChunks_def sort_chunks_def list_all_iff filter_empty_conv)

lemma ragPipeline_null:
  assumes "retrieval env = Inr results" and "boosted js query results = Inr scored"
    and "list_all (\<lambda>c. \<not> relevant c) scored"
  shows "ragPipeline js env query level history st = (Inr None, st)"
  using assms by (simp add: ragPipeline_def relevantChunks_none)

lemma build_result_fields:
  "build_result env parsed raw query level cites conf = Inr r \<Longrightarrow>
   sources r = cites \<and> confidence r = conf"
  by (auto simp: build_result_def and_then_def split: sum.splits)

lemma llmOnlyAnswer_fields:
  assumes "llmOnlyAnswer js env query level history st = (Inr r, st')"
  shows "sources r = [] \<and> confidence r = literal (5/10)"
  using assms
  by (auto simp: llmOnlyAnswer_def Let_def js_step_def split: prod.splits sum.splits
           dest: build_result_fields)

lemma citations_of_chunks:
  "all_or_throw citation kept = Inr cites \<Longrightarrow>
   list_all2 (\<lambda>cit c. relevance cit = similarity c) cites kept"
proof (induction kept arbitrary: cites)
  case Nil
  then show ?case by simp
next
  case (Cons c kept)
  then show ?case
    by (auto simp: and_then_def citation_def split: sum.splits option.splits)
qed

lemma citations_pass_filter:
  assumes "all_or_throw citation kept = Inr cites" and "list_all relevant kept"
  shows "list_all (\<lambda>cit. num_ge (relevance cit) (literal (3/10))) cites"
proof -
  from citations_of_chunks [OF assms(1)]
  have "list_all2 (\<lambda>cit c. relevance cit = similarity c) cites kept" .
  then show ?thesis
    using assms(2)
    by (induction rule: list_all2_induct) (simp_all add: relevant_def)
qed

lemma answer_from_chunks_prompt:
  assumes "answer_from_chunks js env query level history kept st = (res, st')"
  shows "prompts_sent st' = prompts_sent st
         \<or> (\<exists>context. chunksWithIds env kept = Inr context
               \<and> prompts_sent st' = prompts_sent st
                    @ [rag_prompt js env query level context (formatHistory history)])"
  using assms
  by (auto simp: answer_from_chunks_def Let_def split: sum.splits)

lemma answer_from_chunks_sources:
  assumes "answer_from_chunks js env query level history kept st = (Inr (Some r), st')"
  shows "all_or_throw citation kept = Inr (sources r)"
  using assms
  by (auto simp: answer_from_chunks_def Let_def js_step_def map_sum_def
           split: sum.splits dest!: build_result_fields)

text \<open>
  Whenever \<^verbatim>\<open>ragPipeline\<close> hands a prompt to the model, the prompt is built from the
  chunks it kept: those of the neighbours found for this request that pass the filter
  after the boost, in the order of the sort, \<^verbatim>\<open>rerankTop\<close> at most.
\<close>

lemma ragPipeline_grounded:
  assumes "ragPipeline js env query level history st = (res, st')"
  shows "prompts_sent st' = prompts_sent st
         \<or> (\<exists>results scored context.
               retrieval env = Inr results
               \<and> boosted js query results = Inr scored
               \<and> list_all (\<lambda>c. c \<in> set scored \<and> relevant c)
                    (relevantChunks (rerankTop env) scored)
               \<and> chunksWithIds env (relevantChunks (rerankTop env) scored) = Inr context
               \<and> prompts_sent st' = prompts_sent st
                    @ [rag_prompt js env query level context (formatHistory history)]
               \<and> (\<forall>r. res = Inr (Some r)
                     \<longrightarrow> all_or_throw citation (relevantChunks (rerankTop env) scored)
                           = Inr (sources r)
                         \<and> list_all (\<lambda>cit. num_ge (relevance cit) (literal (3/10)))
                             (sources r)))"
proof (cases "prompts_sent st' = prompts_sent st")
  case True
  then show ?thesis by simp
next
  case False
  with assms obtain results scored where
    found: "retrieval env = Inr results"
    and scored: "boosted js query results = Inr scored"
    and run: "answer_from_chunks js env query level history
                (relevantChunks (rerankTop env) scored) st = (res, st')"
    by (auto simp: ragPipeline_def Let_def split: sum.splits if_splits)
  let ?kept = "relevantChunks (rerankTop env) scored"
  from answer_from_chunks_prompt [OF run] False obtain cx where
    ctx: "chunksWithIds env ?kept = Inr cx"
    and sent: "prompts_sent st' = prompts_sent st
                 @ [rag_prompt js env query level cx (formatHistory history)]"
    by auto
  have kept: "list_all (\<lambda>c. c \<in> set scored \<and> relevant c) ?kept"
    by (rule relevantChunks_kept)
  then have pass: "list_all relevant ?kept"
    by (simp add: list_all_iff)
  have cites: "\<forall>r. res = Inr (Some r)
                 \<longrightarrow> all_or_throw citation ?kept = Inr (sources r)
                     \<and> list_all (\<lambda>cit. num_ge (relevance cit) (literal (3/10))) (sources r)"
  proof (intro allI impI)
    fix r assume "res = Inr (Some r)"
    with run have "all_or_throw citation ?kept = Inr (sources r)"
      by (simp add: answer_from_chunks_sources)
    then show "all_or_throw citation ?kept = Inr (sources r)
               \<and> list_all (\<lambda>cit. num_ge (relevance cit) (literal (3/10))) (sources r)"
      using pass by (simp add: citations_pass_filter)
  qed
  from found scored kept ctx sent cites show ?thesis
    by (intro disjI2 exI [of _ results] exI [of _ scored] exI [of _ cx] conjI)
qed

text \<open>The request at the threshold: one neighbour, \<^verbatim>\<open>0.29999999999999993\<close> after the boost.\<close>

lemma threshold_boosted:
  "boosted sample_js ''sql injection'' threshold_neighbour = Inr [chunk1]"
proof -
  have "boosted sample_js ''sql injection'' threshold_neighbour
     = Inr [\<lparr>chunk_id = ''doc1'', content = Some ''notes about sql injection'',
             metadata = Some handbook, distance = Some (literal (8/10)),
             similarity =
               num_add (num_add (num_sub (Finite 1) (literal (8/10))) (literal (5/100)))
                 (literal (5/100))\<rparr>]"
    by (simp add: boosted_def threshold_neighbour_def scoredChunks_def queryTerms_def
          sample_js_def plain_js_def boost_chunk_def and_then_def item_at_def at_nullable_def)
  then show ?thesis
    unfolding chunk1_def threshold_similarity .
qed

lemma threshold_not_relevant: "list_all (\<lambda>c. \<not> relevant c) [chunk1]"
  by (simp add: relevant_threshold chunk1_def)

lemma sample_parsed:
  "parseJSON sample_js ''use prepared statements''
     = Inr (JObj [(''answer'', JStr ''use prepared statements''),
                  (''suggestedFollowups'', JArr []),
                  (''keyTakeaways'', JArr [])])"
  by (simp add: parseJSON_first_recovery attempt1_def attempt2_def attempt3_def attempt4_def
        caught_def clean_def sanitize_text_def sample_js_def plain_js_def parse_sample_def
        padded_answer_def trim_spaces_def Let_def)

lemma threshold_llm_only:
  "llmOnlyAnswer sample_js (sample_env threshold_neighbour) ''sql injection'' beginner None
     fresh_state
     = (Inr \<lparr>answer = JStr ''use prepared statements'', sources = [],
             confidence = Finite (1/2),
             suggestedFollowups = JArr [], keyTakeaways = Some (JArr [])\<rparr>,
        \<lparr>response_cache =
           [(''ask:beginner:sql injection'',
             \<lparr>cached = ''use prepared statements'', expiresAt = 300000\<rparr>)],
         lastConfidence = Finite (1/2),
         prompts_sent = [''sql injection'']\<rparr>)"
proof -
  have "llmOnlyAnswer sample_js (sample_env threshold_neighbour) ''sql injection'' beginner None
     fresh_state
     = (Inr \<lparr>answer = JStr ''use prepared statements'', sources = [],
             confidence = literal (5/10),
             suggestedFollowups = JArr [], keyTakeaways = Some (JArr [])\<rparr>,
        \<lparr>response_cache =
           [(''ask:beginner:sql injection'',
             \<lparr>cached = ''use prepared statements'', expiresAt = 300000\<rparr>)],
         lastConfidence = literal (5/10),
         prompts_sent = [''sql injection'']\<rparr>)"
    by (simp add: llmOnlyAnswer_def cached_completion_def fresh_completion_def getCached_def
          map_get_def setCache_def MAX_ENTRIES_def DEFAULT_TTL_MS_def llm_prompt_def
          formatHistory_def makeCacheKey_def sample_parsed build_result_def
          js_step_def and_then_def sample_env_def fresh_state_def Let_def)
       (simp add: sample_js_def plain_js_def trim_spaces_def)
  then show ?thesis
    unfolding literal_5_10 .
qed

text \<open>
  The request with three neighbours: the first is dropped at \<^verbatim>\<open>0.29999999999999993\<close>;
  the other two are kept, the third one (\<^verbatim>\<open>0.8500000000000001\<close>) in front of the
  second one (\<^verbatim>\<open>0.6000000000000001\<close>), and they alone are in the prompt and among
  the sources.
\<close>

lemma three_boosted:
  "boosted sample_js ''sql injection'' three_neighbours = Inr [chunk1, chunk2, chunk3]"
proof -
  have "boosted sample_js ''sql injection'' three_neighbours
     = Inr [\<lparr>chunk_id = ''doc1'', content = Some ''notes about sql injection'',
             metadata = Some handbook, distance = Some (literal (8/10)),
             similarity =
               num_add (num_add (num_sub (Finite 1) (literal (8/10))) (literal (5/100)))
                 (literal (5/100))\<rparr>,
            \<lparr>chunk_id = ''doc2'', content = Some ''sql injection in login forms'',
             metadata = Some handbook, distance = Some (literal (5/10)),
             similarity =
               num_add (num_add (num_sub (Finite 1) (literal (5/10))) (literal (5/100)))
                 (literal (5/100))\<rparr>,
            \<lparr>chunk_id = ''doc3'', content = Some ''blind sql injection'',
             metadata = Some handbook, distance = Some (literal (25/100)),
             similarity =
               num_add (num_add (num_sub (Finite 1) (literal (25/100))) (literal (5/100)))
                 (literal (5/100))\<rparr>]"
    by (simp add: boosted_def three_neighbours_def scoredChunks_def queryTerms_def
          sample_js_def plain_js_def boost_chunk_def and_then_def item_at_def at_nullable_def)
  then show ?thesis
    unfolding chunk1_def chunk2_def chunk3_def threshold_similarity near_similarity
      close_similarity .
qed

lemma three_sorted: "sort_chunks [chunk2, chunk3] = [chunk3, chunk2]"
proof -
  have d: "to_number (1914029841632461 / 2 ^ 51 + - (1351079888211149 / 2 ^ 51)) = Finite (1/4)"
    by (rule to_number_at [where e = "- 2"])
       (simp_all add: powr_neg_numeral round_half_even_def Let_def)
  have "insert_chunk chunk2 (chunk3 # []) = chunk3 # insert_chunk chunk2 []"
    by (rule insert_chunk_behind [OF _ _ d]) (simp_all add: chunk2_def chunk3_def)
  then show ?thesis
    by (simp add: sort_chunks_def)
qed

lemma three_kept:
  "relevantChunks 5 [chunk1, chunk2, chunk3] = [chunk3, chunk2]
   \<and> relevantChunks 1 [chunk1, chunk2, chunk3] = [chunk3]"
proof -
  have "filter relevant [chunk1, chunk2, chunk3] = [chunk2, chunk3]"
    by (simp add: relevant_threshold chunk1_def chunk2_def chunk3_def)
  then show ?thesis
    by (simp add: relevantChunks_def three_sorted)
qed

lemma chunk_fields:
  "content chunk2 = Some ''sql injection in login forms''"
  "content chunk3 = Some ''blind sql injection''"
  "metadata chunk2 = Some handbook"
  "metadata chunk3 = Some handbook"
  "similarity chunk2 = Finite (1351079888211149 / 2 ^ 51)"
  "similarity chunk3 = Finite (1914029841632461 / 2 ^ 51)"
  by (simp_all add: chunk2_def chunk3_def)

lemma three_answer:
  "answer_from_chunks sample_js (sample_env three_neighbours) ''sql injection'' beginner None
     [chunk3, chunk2] fresh_state
     = (Inr (Some \<lparr>answer = JStr ''use prepared statements'',
                   sources = [\<lparr>cit_text = ''blind sql injection...'',
                               cit_source = ''handbook'', cit_url = None,
                               relevance = Finite (1914029841632461 / 2 ^ 51)\<rparr>,
                              \<lparr>cit_text = ''sql injection in login forms...'',
                               cit_source = ''handbook'', cit_url = None,
                               relevance = Finite (1351079888211149 / 2 ^ 51)\<rparr>],
                   confidence = Finite (7430939385161319 / 2 ^ 53),
                   suggestedFollowups = JArr [], keyTakeaways = Some (JArr [])\<rparr>),
        \<lparr>response_cache = [],
         lastConfidence = Finite (7430939385161319 / 2 ^ 53),
         prompts_sent =
           [''[1] Source: handbook'' @ [CHR 0x0A] @ ''blind sql injection''
              @ [CHR 0x0A, CHR 0x0A] @ ''---'' @ [CHR 0x0A, CHR 0x0A]
              @ ''[2] Source: handbook'' @ [CHR 0x0A]
              @ ''sql injection in login forms | sql injection'']\<rparr>)"
proof -
  have "answer_from_chunks sample_js (sample_env three_neighbours) ''sql injection'' beginner
          None [chunk3, chunk2] fresh_state
     = (Inr (Some \<lparr>answer = JStr ''use prepared statements'',
                   sources = [\<lparr>cit_text = ''blind sql injection...'',
                               cit_source = ''handbook'', cit_url = None,
                               relevance = Finite (1914029841632461 / 2 ^ 51)\<rparr>,
                              \<lparr>cit_text = ''sql injection in login forms...'',
                               cit_source = ''handbook'', cit_url = None,
                               relevance = Finite (1351079888211149 / 2 ^ 51)\<rparr>],
                   confidence =
                     num_min (num_add (avgSimilarity [chunk3, chunk2]) (literal (1/10)))
                       (literal 1),
                   suggestedFollowups = JArr [], keyTakeaways = Some (JArr [])\<rparr>),
        \<lparr>response_cache = [],
         lastConfidence =
           num_min (num_add (avgSimilarity [chunk3, chunk2]) (literal (1/10))) (literal 1),
         prompts_sent =
           [''[1] Source: handbook'' @ [CHR 0x0A] @ ''blind sql injection''
              @ [CHR 0x0A, CHR 0x0A] @ ''---'' @ [CHR 0x0A, CHR 0x0A]
              @ ''[2] Source: handbook'' @ [CHR 0x0A]
              @ ''sql injection in login forms | sql injection'']\<rparr>)"
    by (simp add: answer_from_chunks_def chunksWithIds_def chunk_with_id_def rag_prompt_def
          formatHistory_def sample_parsed citation_def build_result_def js_step_def
          and_then_def chunk_fields handbook_def sample_env_def fresh_state_def Let_def)
       (simp add: sample_js_def plain_js_def)
  then show ?thesis
    unfolding grounded_confidence .
qed

lemma three_grounded:
  "ragPipeline sample_js (sample_env three_neighbours) ''sql injection'' beginner None
     fresh_state
     = (Inr (Some \<lparr>answer = JStr ''use prepared statements'',
                   sources = [\<lparr>cit_text = ''blind sql injection...'',
                               cit_source = ''handbook'', cit_url = None,
                               relevance = Finite (1914029841632461 / 2 ^ 51)\<rparr>,
                              \<lparr>cit_text = ''sql injection in login forms...'',
                               cit_source = ''handbook'', cit_url = None,
                               relevance = Finite (1351079888211149 / 2 ^ 51)\<rparr>],
                   confidence = Finite (7430939385161319 / 2 ^ 53),
                   suggestedFollowups = JArr [], keyTakeaways = Some (JArr [])\<rparr>),
        \<lparr>response_cache = [],
         lastConfidence = Finite (7430939385161319 / 2 ^ 53),
         prompts_sent =
           [''[1] Source: handbook'' @ [CHR 0x0A] @ ''blind sql injection''
              @ [CHR 0x0A, CHR 0x0A] @ ''---'' @ [CHR 0x0A, CHR 0x0A]
              @ ''[2] Source: handbook'' @ [CHR 0x0A]
              @ ''sql injection in login forms | sql injection'']\<rparr>)"
proof -
  have found: "retrieval (sample_env three_neighbours) = Inr three_neighbours"
    and top: "rerankTop (sample_env three_neighbours) = 5"
    and some: "ids three_neighbours \<noteq> []"
    by (simp_all add: sample_env_def three_neighbours_def)
  have kept: "relevantChunks 5 [chunk1, chunk2, chunk3] = [chunk3, chunk2]"
    using three_kept by (rule conjunct1)
  show ?thesis
    unfolding ragPipeline_def
    by (simp only: found top some three_boosted kept three_answer sum.case if_False Let_def
          list.distinct)
qed

lemma missing_distance_not_relevant:
  "list_all (\<lambda>c. \<not> relevant c) [chunk1\<lparr>distance := None, similarity := NaN\<rparr>]"
  by (simp add: relevant_threshold)

text \<open>
  Claim C8. Suppose the search returns neighbours and every one of them fails the test
  \<^verbatim>\<open>similarity >= 0.3\<close> after the keyword boost, where the similarity is the double
  that \<^verbatim>\<open>1 - distance\<close> and the additions of \<^verbatim>\<open>0.05\<close> give, and the test compares it
  with the double of \<^verbatim>\<open>0.3\<close>. Then \<^verbatim>\<open>ragPipeline\<close> returns \<^verbatim>\<open>null\<close> without building a
  prompt or calling the model, \<^verbatim>\<open>handle\<close> continues as \<^verbatim>\<open>llmOnlyAnswer\<close>, and every
  answer it returns has an empty list of sources and the confidence 0.5, which is below
  the \<^verbatim>\<open>0.6\<close> of \<^verbatim>\<open>CONFIDENCE.HIGH\<close>.
  And in every run of \<^verbatim>\<open>ragPipeline\<close>, if a prompt is handed to the model at all, its
  context is built from the chunks kept for this request and from no other: neighbours
  that the search returned for it and that pass the test after the boost; the sources
  of a returned answer are the citations of these same chunks, and the relevance of
  every one of them passes the test.
\<close>

theorem low_similarity_abandons_grounding:
  assumes "retrieval env = Inr results"
    and "boosted js query results = Inr scored"
    and "list_all (\<lambda>c. \<not> relevant c) scored"
    and "action \<noteq> ''related''"
  shows "ragPipeline js env query level history st = (Inr None, st)
         \<and> handle js env action query level history st
             = llmOnlyAnswer js env query level history st
         \<and> (\<forall>r st'. handle js env action query level history st = (Inr r, st')
               \<longrightarrow> sources r = [] \<and> confidence r = Finite (1/2)
                   \<and> num_lt (confidence r) CONFIDENCE_HIGH)
         \<and> CONFIDENCE_HIGH = Finite (5404319552844595 / 2 ^ 53)
         \<and> relevant chunk = num_ge (similarity chunk) (Finite (5404319552844595 / 2 ^ 54))
         \<and> (ragPipeline js2 env2 query2 level2 history2 st2 = (res2, st2')
               \<longrightarrow> prompts_sent st2' = prompts_sent st2
                   \<or> (\<exists>results2 scored2 context.
                         retrieval env2 = Inr results2
                         \<and> boosted js2 query2 results2 = Inr scored2
                         \<and> list_all (\<lambda>c. c \<in> set scored2 \<and> relevant c)
                              (relevantChunks (rerankTop env2) scored2)
                         \<and> chunksWithIds env2 (relevantChunks (rerankTop env2) scored2)
                             = Inr context
                         \<and> prompts_sent st2' = prompts_sent st2
                              @ [rag_prompt js2 env2 query2 level2 context
                                   (formatHistory history2)]
                         \<and> (\<forall>r. res2 = Inr (Some r)
                               \<longrightarrow> all_or_throw citation
                                       (relevantChunks (rerankTop env2) scored2)
                                     = Inr (sources r)
                                   \<and> list_all
                                       (\<lambda>cit. num_ge (relevance cit) (literal (3/10)))
                                       (sources r))))"
proof -
  have null: "ragPipeline js env query level history st = (Inr None, st)"
    using assms(1-3) by (rule ragPipeline_null)
  with assms(4)
  have same: "handle js env action query level history st
                = llmOnlyAnswer js env query level history st"
    by (simp add: handle_def)
  have fields: "\<forall>r st'. handle js env action query level history st = (Inr r, st')
                  \<longrightarrow> sources r = [] \<and> confidence r = Finite (1/2)
                      \<and> num_lt (confidence r) CONFIDENCE_HIGH"
  proof (intro allI impI)
    fix r st'
    assume "handle js env action query level history st = (Inr r, st')"
    with same have "llmOnlyAnswer js env query level history st = (Inr r, st')"
      by simp
    from llmOnlyAnswer_fields [OF this]
    have "sources r = [] \<and> confidence r = Finite (1/2)"
      unfolding literal_5_10 .
    then show "sources r = [] \<and> confidence r = Finite (1/2)
               \<and> num_lt (confidence r) CONFIDENCE_HIGH"
      by (simp add: llm_only_below_high)
  qed
  have high: "CONFIDENCE_HIGH = Finite (5404319552844595 / 2 ^ 53)"
    unfolding CONFIDENCE_HIGH_def by (rule literal_6_10)
  have test: "relevant chunk = num_ge (similarity chunk) (Finite (5404319552844595 / 2 ^ 54))"
    by (rule relevant_threshold)
  from null same fields high test show ?thesis
    using ragPipeline_grounded [of js2 env2 query2 level2 history2 st2 res2 st2']
    by (intro conjI impI) assumption+
qed

theorem low_similarity_abandons_grounding_witness:
  "retrieval (sample_env threshold_neighbour) = Inr threshold_neighbour
   \<and> boosted sample_js ''sql injection'' threshold_neighbour = Inr [chunk1]
   \<and> similarity chunk1 = Finite (2702159776422297 / 2 ^ 53)
   \<and> list_all (\<lambda>c. \<not> relevant c) [chunk1]
   \<and> ragPipeline sample_js (sample_env threshold_neighbour) ''sql injection'' beginner None
        fresh_state
       = (Inr None, fresh_state)
   \<and> handle sample_js (sample_env threshold_neighbour) ''ask'' ''sql injection'' beginner None
        fresh_state
       = (Inr \<lparr>answer = JStr ''use prepared statements'', sources = [],
               confidence = Finite (1/2),
               suggestedFollowups = JArr [], keyTakeaways = Some (JArr [])\<rparr>,
          \<lparr>response_cache =
             [(''ask:beginner:sql injection'',
               \<lparr>cached = ''use prepared statements'', expiresAt = 300000\<rparr>)],
           lastConfidence = Finite (1/2),
           prompts_sent = [''sql injection'']\<rparr>)
   \<and> list_all (\<lambda>c. \<not> relevant c) [chunk1\<lparr>distance := None, similarity := NaN\<rparr>]
   \<and> boosted sample_js ''sql injection'' three_neighbours = Inr [chunk1, chunk2, chunk3]
   \<and> relevantChunks 5 [chunk1, chunk2, chunk3] = [chunk3, chunk2]
   \<and> relevantChunks 1 [chunk1, chunk2, chunk3] = [chunk3]
   \<and> ragPipeline sample_js (sample_env three_neighbours) ''sql injection'' beginner None
        fresh_state
       = (Inr (Some \<lparr>answer = JStr ''use prepared statements'',
                     sources = [\<lparr>cit_text = ''blind sql injection...'',
                                 cit_source = ''handbook'', cit_url = None,
                                 relevance = Finite (1914029841632461 / 2 ^ 51)\<rparr>,
                                \<lparr>cit_text = ''sql injection in login forms...'',
                                 cit_source = ''handbook'', cit_url = None,
                                 relevance = Finite (1351079888211149 / 2 ^ 51)\<rparr>],
                     confidence = Finite (7430939385161319 / 2 ^ 53),
                     suggestedFollowups = JArr [], keyTakeaways = Some (JArr [])\<rparr>),
          \<lparr>response_cache = [],
           lastConfidence = Finite (7430939385161319 / 2 ^ 53),
           prompts_sent =
             [''[1] Source: handbook'' @ [CHR 0x0A] @ ''blind sql injection''
                @ [CHR 0x0A, CHR 0x0A] @ ''---'' @ [CHR 0x0A, CHR 0x0A]
                @ ''[2] Source: handbook'' @ [CHR 0x0A]
                @ ''sql injection in login forms | sql injection'']\<rparr>)
   \<and> handle sample_js (sample_env three_neighbours) ''ask'' ''sql injection'' beginner None
        fresh_state
       = (Inr \<lparr>answer = JStr ''use prepared statements'',
                     sources = [\<lparr>cit_text = ''blind sql injection...'',
                                 cit_source = ''handbook'', cit_url = None,
                                 relevance = Finite (1914029841632461 / 2 ^ 51)\<rparr>,
                                \<lparr>cit_text = ''sql injection in login forms...'',
                                 cit_source = ''handbook'', cit_url = None,
                                 relevance = Finite (1351079888211149 / 2 ^ 51)\<rparr>],
                     confidence = Finite (7430939385161319 / 2 ^ 53),
                     suggestedFollowups = JArr [], keyTakeaways = Some (JArr [])\<rparr>,
          \<lparr>response_cache = [],
           lastConfidence = Finite (7430939385161319 / 2 ^ 53),
           prompts_sent =
             [''[1] Source: handbook'' @ [CHR 0x0A] @ ''blind sql injection''
                @ [CHR 0x0A, CHR 0x0A] @ ''---'' @ [CHR 0x0A, CHR 0x0A]
                @ ''[2] Source: handbook'' @ [CHR 0x0A]
                @ ''sql injection in login forms | sql injection'']\<rparr>)"
proof -
  have found: "retrieval (sample_env threshold_neighbour) = Inr threshold_neighbour"
    by (simp add: sample_env_def)
  have ask: "''ask'' \<noteq> ''related''"
    by simp
  have sim: "similarity chunk1 = Finite (2702159776422297 / 2 ^ 53)"
    by (simp add: chunk1_def)
  note main = low_similarity_abandons_grounding
                [OF found threshold_boosted threshold_not_relevant ask,
                 where level = beginner and history = None and st = fresh_state]
  from main
  have null: "ragPipeline sample_js (sample_env threshold_neighbour) ''sql injection'' beginner
                None fresh_state = (Inr None, fresh_state)"
    by (rule conjunct1)
  from main
  have "handle sample_js (sample_env threshold_neighbour) ''ask'' ''sql injection'' beginner
          None fresh_state
        = llmOnlyAnswer sample_js (sample_env threshold_neighbour) ''sql injection'' beginner
            None fresh_state"
    by (rule conjunct1 [OF conjunct2])
  moreover
  have "handle sample_js (sample_env three_neighbours) ''ask'' ''sql injection'' beginner None
          fresh_state
       = (Inr \<lparr>answer = JStr ''use prepared statements'',
                     sources = [\<lparr>cit_text = ''blind sql injection...'',
                                 cit_source = ''handbook'', cit_url = None,
                                 relevance = Finite (1914029841632461 / 2 ^ 51)\<rparr>,
                                \<lparr>cit_text = ''sql injection in login forms...'',
                                 cit_source = ''handbook'', cit_url = None,
                                 relevance = Finite (1351079888211149 / 2 ^ 51)\<rparr>],
                     confidence = Finite (7430939385161319 / 2 ^ 53),
                     suggestedFollowups = JArr [], keyTakeaways = Some (JArr [])\<rparr>,
          \<lparr>response_cache = [],
           lastConfidence = Finite (7430939385161319 / 2 ^ 53),
           prompts_sent =
             [''[1] Source: handbook'' @ [CHR 0x0A] @ ''blind sql injection''
                @ [CHR 0x0A, CHR 0x0A] @ ''---'' @ [CHR 0x0A, CHR 0x0A]
                @ ''[2] Source: handbook'' @ [CHR 0x0A]
                @ ''sql injection in login forms | sql injection'']\<rparr>)"
    by (simp add: handle_def three_grounded)
  ultimately show ?thesis
    using found threshold_boosted sim threshold_not_relevant null three_boosted three_kept
      three_grounded missing_distance_not_relevant
    by (simp only: threshold_llm_only simp_thms)
qed

end
